theory Spec2Isabelle
  imports Main "HOL-Library.Word"
begin

section \<open>C strings\<close>

text \<open>
  A \<^verbatim>\<open>const char*\<close> is read up to its first NUL byte. Strings that the source
  passes around as \<^verbatim>\<open>const char*\<close> (the result of \<^verbatim>\<open>GetString()\<close>, \<^verbatim>\<open>m_name\<close>,
  \<^verbatim>\<open>c_str()\<close>, \<^verbatim>\<open>data()\<close> under \<^verbatim>\<open>%s\<close>) are modelled as the byte list together with
  \<open>c_str\<close>, which cuts the list at the first NUL.
\<close>

definition c_str :: "string \<Rightarrow> string" where
  "c_str s = takeWhile (\<lambda>c. c \<noteq> CHR 0x00) s"

definition isupper :: "char \<Rightarrow> bool" where
  "isupper c = (65 \<le> (of_char c :: nat) \<and> (of_char c :: nat) \<le> 90)"

definition ascii_tolower :: "char \<Rightarrow> char" where
  "ascii_tolower c =
     (if isupper c
      then (case c of Char b0 b1 b2 b3 b4 b5 b6 b7 \<Rightarrow> Char b0 b1 b2 b3 b4 True b6 b7)
      else c)"

text \<open>
  Modelled from the spec: \<^verbatim>\<open>azstricmp\<close> is a platform macro (\<^verbatim>\<open>_stricmp\<close> or
  \<^verbatim>\<open>strcasecmp\<close>) that Utils.cpp uses and does not define; the spec calls the comparison
  "case-insensitively equal". It is modelled as the C loop over two NUL-terminated strings
  that folds the ASCII letters \<^verbatim>\<open>A-Z\<close> and returns the difference of the first pair of
  bytes that differ, or 0 when both strings end together. The end of the list stands for
  the terminating NUL.
\<close>

fun azstricmp :: "string \<Rightarrow> string \<Rightarrow> int" where
  "azstricmp [] [] = 0"
| "azstricmp [] (y # ys) = (if y = CHR 0x00 then 0 else - int (of_char (ascii_tolower y)))"
| "azstricmp (x # xs) [] = (if x = CHR 0x00 then 0 else int (of_char (ascii_tolower x)))"
| "azstricmp (x # xs) (y # ys) =
     (if ascii_tolower x \<noteq> ascii_tolower y
      then int (of_char (ascii_tolower x)) - int (of_char (ascii_tolower y))
      else if x = CHR 0x00 then 0
      else azstricmp xs ys)"

text \<open>Decimal digits of a \<^verbatim>\<open>size_t\<close>, as \<^verbatim>\<open>%zu\<close> prints them.\<close>

fun format_zu :: "nat \<Rightarrow> string" where
  "format_zu n =
     (if n < 10 then [''0123456789'' ! n]
      else format_zu (n div 10) @ [''0123456789'' ! (n mod 10)])"

section \<open>Documents: rapidjson values\<close>

text \<open>
  A rapidjson value is null, a boolean, a number, a string, an array or an object; an
  object keeps its members in insertion order and may hold a name twice. A double is kept
  as its 64-bit pattern: nothing in Utils.cpp looks inside a number.
\<close>

datatype json =
    JNull
  | JBool bool
  | JInt int
  | JDouble "64 word"
  | JString string
  | JArray "json list"
  | JObject "(string \<times> json) list"

fun IsString :: "json \<Rightarrow> bool" where
  "IsString (JString s) = True"
| "IsString v = False"

fun IsObject :: "json \<Rightarrow> bool" where
  "IsObject (JObject ms) = True"
| "IsObject v = False"

text \<open>
  \<^verbatim>\<open>FindMember(name)\<close> walks the members from the first and stops at the first whose
  name equals \<open>name\<close> (same length, same bytes); \<open>None\<close> is \<^verbatim>\<open>MemberEnd()\<close>.
\<close>

fun FindMember :: "(string \<times> json) list \<Rightarrow> string \<Rightarrow> json option" where
  "FindMember [] name = None"
| "FindMember ((k, v) # ms) name = (if k = name then Some v else FindMember ms name)"

definition FileTypeTag :: string where "FileTypeTag = ''Type''"
definition FileType :: string where "FileType = ''JsonSerialization''"
definition VersionTag :: string where "VersionTag = ''Version''"
definition ClassNameTag :: string where "ClassNameTag = ''ClassName''"
definition ClassDataTag :: string where "ClassDataTag = ''ClassData''"

definition MaxFileSize :: nat where "MaxFileSize = 1024 * 1024"

section \<open>Results of a call\<close>

text \<open>
  \<^verbatim>\<open>AZ::Outcome<T, AZStd::string>\<close> is \<open>Success\<close> with a value or \<open>Failure\<close> with a message.
  The third constructor records the places where the C++ leaves the defined behaviour of
  its libraries instead of returning: a rapidjson member lookup on a value that is not an
  object, reading \<^verbatim>\<open>->value\<close> of \<^verbatim>\<open>MemberEnd()\<close>, \<^verbatim>\<open>GetString()\<close> on a value that is
  not a string, and \<^verbatim>\<open>classData->m_name\<close> on a null \<^verbatim>\<open>classData\<close>.
\<close>

datatype fault = NotAnObject | EndIteratorDereferenced | NotAString | NullClassData

datatype 'a Outcome = Success 'a | Failure string | Fault fault

fun IsSuccess :: "'a Outcome \<Rightarrow> bool" where
  "IsSuccess (Success v) = True"
| "IsSuccess r = False"

section \<open>Header validation\<close>

definition ValidateJsonClassHeader :: "json \<Rightarrow> unit Outcome" where
  "ValidateJsonClassHeader jsonDocument =
     (case jsonDocument of
        JObject members \<Rightarrow>
          if (case FindMember members FileTypeTag of
                None \<Rightarrow> True
              | Some (JString s) \<Rightarrow> azstricmp s FileType \<noteq> 0
              | Some v \<Rightarrow> True)
          then Failure ''Not a valid JsonSerialization file''
          else if (case FindMember members ClassNameTag of
                     None \<Rightarrow> True
                   | Some v \<Rightarrow> \<not> IsString v)
          then Failure ''File should contain ClassName''
          else if (case FindMember members ClassDataTag of
                     None \<Rightarrow> False
                   | Some v \<Rightarrow> \<not> IsObject v)
          then Failure ''ClassData should be an object''
          else Success ()
      | _ \<Rightarrow> Fault NotAnObject)"

text \<open>
  The three checks as the specification words them, over the object's members read as a
  finite map from names to values (the first member of a name): the type tag is a string
  equal to the sentinel once both are cut at their NUL and folded to lower case; the
  class name is a string; the class data, when there is one, is an object.
\<close>

definition spec_type_tag_ok :: "(string \<times> json) list \<Rightarrow> bool" where
  "spec_type_tag_ok members =
     (case map_of members ''Type'' of
        Some (JString s) \<Rightarrow>
          map ascii_tolower (c_str s) = map ascii_tolower ''JsonSerialization''
      | _ \<Rightarrow> False)"

definition spec_class_name_ok :: "(string \<times> json) list \<Rightarrow> bool" where
  "spec_class_name_ok members =
     (case map_of members ''ClassName'' of Some (JString s) \<Rightarrow> True | _ \<Rightarrow> False)"

definition spec_class_data_ok :: "(string \<times> json) list \<Rightarrow> bool" where
  "spec_class_data_ok members =
     (case map_of members ''ClassData'' of
        None \<Rightarrow> True
      | Some (JObject ms) \<Rightarrow> True
      | Some v \<Rightarrow> False)"

definition spec_validateHeader :: "(string \<times> json) list \<Rightarrow> unit Outcome" where
  "spec_validateHeader members =
     (if \<not> spec_type_tag_ok members then Failure ''Not a valid JsonSerialization file''
      else if \<not> spec_class_name_ok members then Failure ''File should contain ClassName''
      else if \<not> spec_class_data_ok members then Failure ''ClassData should be an object''
      else Success ())"

section \<open>Result codes of the object mapper\<close>

text \<open>
  Modelled from the spec: the enumerations of \<^verbatim>\<open>JsonSerializationResult\<close> are declared
  outside Utils.cpp. The spec names the processing states \<open>Completed\<close> and \<open>Halted\<close> and
  the outcome categories \<open>Success\<close>, \<open>DefaultsUsed\<close>, \<open>PartialDefaults\<close>, \<open>Skipped\<close> and
  \<open>Unsupported\<close>, and leaves the further categories open; \<open>Outcome_Other\<close> stands for
  any of those.
\<close>

datatype Processing = Completed | Halted

datatype Outcomes =
    Outcome_Success
  | Outcome_DefaultsUsed
  | Outcome_PartialDefaults
  | Outcome_Skipped
  | Outcome_Unsupported
  | Outcome_Other nat

record ResultCode =
  GetProcessing :: Processing
  GetOutcome :: Outcomes

definition WasLoadSuccess :: "Outcomes \<Rightarrow> bool" where
  "WasLoadSuccess outcome =
     (outcome = Outcome_Success
      \<or> outcome = Outcome_DefaultsUsed
      \<or> outcome = Outcome_PartialDefaults)"

section \<open>The object model and the settings\<close>

type_synonym Uuid = "128 word"

record ClassData =
  m_name :: string

text \<open>
  The serialize context, as far as Utils.cpp calls it: \<open>FindClassData\<close> is \<open>None\<close> for a
  null pointer (a type id that is not registered), \<open>FindClassId\<close> gives the ids registered
  under a name's CRC, \<open>CreateAny\<close> a default-constructed instance. \<open>'o\<close> is the type of
  object values.
\<close>

record 'o SerializeContext =
  FindClassData :: "Uuid \<Rightarrow> ClassData option"
  FindClassId :: "32 word \<Rightarrow> Uuid list"
  CreateAny :: "Uuid \<Rightarrow> 'o"

text \<open>
  An \<^verbatim>\<open>AZStd::string_view\<close> is a pointer and a size. \<open>view_data\<close> is the bytes stored from
  the pointer on, up to the NUL that ends the storage the view points into, and
  \<open>view_size\<close> the size of the view: the view's own characters are the first \<open>view_size\<close>
  bytes, and \<^verbatim>\<open>data()\<close> printed under \<^verbatim>\<open>%s\<close> reads \<open>c_str\<close> of all of \<open>view_data\<close>, which
  goes past the view when the storage does. The message of a report is used through its
  size-aware operations only (\<^verbatim>\<open>append\<close>, \<^verbatim>\<open>!=\<close>) and is kept as its characters.
\<close>

datatype string_view = StringView (view_data: string) (view_size: nat)

definition view_of :: "string \<Rightarrow> string_view" where
  "view_of s = StringView s (length s)"

type_synonym JsonIssueCallback = "string \<Rightarrow> ResultCode \<Rightarrow> string_view \<Rightarrow> ResultCode"

text \<open>
  \<^verbatim>\<open>JsonSerializerSettings\<close> and \<^verbatim>\<open>JsonDeserializerSettings\<close>: the two members Utils.cpp
  reads. A default-constructed value has neither.
\<close>

record 'o JsonSettings =
  m_serializeContext :: "'o SerializeContext option"
  m_reporting :: "JsonIssueCallback option"

definition default_settings :: "'o JsonSettings" where
  "default_settings = \<lparr>m_serializeContext = None, m_reporting = None\<rparr>"

section \<open>The mapper's run against the reporting callback\<close>

text \<open>
  \<^verbatim>\<open>JsonSerialization::Load\<close> is defined outside Utils.cpp. What Utils.cpp fixes is how
  it is driven: the mapper calls the installed reporting callback with a message, a result
  code and a target path, goes on with the result code the callback returns, and in the
  end returns a result code and has written the object. A run of the mapper is therefore a
  tree: \<open>Done\<close> with the final result code and the object as loaded, or \<open>Report\<close> with
  the three arguments of a callback call and the rest of the run for each answer.
\<close>

datatype 'o mapping =
    Done ResultCode 'o
  | Report string ResultCode string_view "ResultCode \<Rightarrow> 'o mapping"

primrec run_mapping ::
  "(string \<Rightarrow> ResultCode \<Rightarrow> string_view \<Rightarrow> 'b \<Rightarrow> ResultCode \<times> 'b) \<Rightarrow> 'o mapping \<Rightarrow> 'b
     \<Rightarrow> ResultCode \<times> 'o \<times> 'b" where
  "run_mapping callback (Done result object) = (\<lambda>buf. (result, object, buf))"
| "run_mapping callback (Report message result target continue) =
     (\<lambda>buf. case callback message result target buf of
              (result', buf') \<Rightarrow> run_mapping callback (continue result') buf')"

section \<open>Collaborators defined outside Utils.cpp\<close>

text \<open>
  Everything Utils.cpp calls and does not define is a parameter:
  \<open>GetSerializeContext\<close> is the answer of the component application bus;
  \<open>Store\<close> and \<open>Load\<close> are the object mapper (object, default object, type id, settings);
  \<open>Parse\<close> is the rapidjson parser on a text, giving the document or the error offset
  with the English text of the error code;
  \<open>Accept\<close> is the pretty writer on a document, giving the text it emitted and whether it
  finished;
  \<open>ToString\<close> formats a result code, \<open>Uuid_ToString\<close> a type id, and \<open>Crc32\<close> hashes a
  class name.
\<close>

record 'o collaborators =
  GetSerializeContext :: "'o SerializeContext option"
  Store :: "'o \<Rightarrow> 'o option \<Rightarrow> Uuid \<Rightarrow> 'o JsonSettings \<Rightarrow> ResultCode \<times> json"
  Load :: "'o \<Rightarrow> Uuid \<Rightarrow> json \<Rightarrow> 'o SerializeContext \<Rightarrow> 'o mapping"
  Parse :: "string \<Rightarrow> (nat \<times> string) + json"
  Accept :: "json \<Rightarrow> string \<times> bool"
  ToString :: "ResultCode \<Rightarrow> string"
  Uuid_ToString :: "Uuid \<Rightarrow> string"
  Crc32 :: "string \<Rightarrow> 32 word"

section \<open>Streams and files\<close>

text \<open>
  \<^verbatim>\<open>IO::GenericStream\<close> is an interface; a stream is its four operations over a state
  \<open>'s\<close>. \<open>Read n\<close> gives the bytes it delivered (their number is the C++ return value)
  and \<open>Write\<close> the number of bytes it took. Sizes are \<^verbatim>\<open>AZ::u64\<close> in the source; the
  only arithmetic on them is \<open>length + 1\<close> below \<open>MaxFileSize\<close>, so \<open>nat\<close> loses nothing.
\<close>

record 's GenericStream =
  CanWrite :: "'s \<Rightarrow> bool"
  GetLength :: "'s \<Rightarrow> nat"
  Read :: "nat \<Rightarrow> 's \<Rightarrow> string \<times> 's"
  Write :: "string \<Rightarrow> 's \<Rightarrow> nat \<times> 's"

text \<open>
  Modelled from the spec: \<^verbatim>\<open>ByteContainerStream\<close> over a byte vector is declared outside
  Utils.cpp; the spec calls it an in-memory byte buffer. The state is the vector and the
  position; a write overwrites from the position and extends the vector, a read delivers
  what is left from the position, at most the bytes asked for.
\<close>

definition ByteContainerStream :: "(string \<times> nat) GenericStream" where
  "ByteContainerStream =
     \<lparr>CanWrite = (\<lambda>s. True),
      GetLength = (\<lambda>s. length (fst s)),
      Read = (\<lambda>n s. (take n (drop (snd s) (fst s)),
                      (fst s, snd s + length (take n (drop (snd s) (fst s)))))),
      Write = (\<lambda>bytes s.
                 (length bytes,
                  (take (snd s) (fst s) @ bytes @ drop (snd s + length bytes) (fst s),
                   snd s + length bytes)))\<rparr>"

text \<open>
  The file system behind \<^verbatim>\<open>FileIOStream\<close>, over a state \<open>'fs\<close>: \<open>OpenForWrite\<close> is
  \<^verbatim>\<open>Open\<close> with the modes write, create-path and text (whether it succeeded, and the file
  system after it), \<open>WriteOpened\<close> the write to the opened file followed by its close.
\<close>

record 'fs FileIO =
  OpenForWrite :: "string \<Rightarrow> 'fs \<Rightarrow> bool \<times> 'fs"
  WriteOpened :: "string \<Rightarrow> string \<Rightarrow> 'fs \<Rightarrow> 'fs"

section \<open>Saving\<close>

definition SaveObjectToStreamByType ::
  "'o collaborators \<Rightarrow> 'o \<Rightarrow> Uuid \<Rightarrow> 's GenericStream \<Rightarrow> 's \<Rightarrow> 'o option
     \<Rightarrow> 'o JsonSettings option \<Rightarrow> unit Outcome \<times> 's" where
  "SaveObjectToStreamByType ext objectPtr classId stream s defaultObjectPtr settings =
     (if \<not> CanWrite stream s then (Failure ''The GenericStream can't be written to'', s)
      else
        let saveSettings = (case settings of Some given \<Rightarrow> given | None \<Rightarrow> default_settings) in
        case (case m_serializeContext saveSettings of
                Some context \<Rightarrow> Some context
              | None \<Rightarrow> GetSerializeContext ext) of
          None \<Rightarrow> (Failure ''Need SerializeContext for saving'', s)
        | Some serializeContext \<Rightarrow>
            (case Store ext objectPtr defaultObjectPtr classId
                    (saveSettings\<lparr>m_serializeContext := Some serializeContext\<rparr>) of
               (jsonResult, serializedObject) \<Rightarrow>
                 if GetProcessing jsonResult \<noteq> Completed
                 then (Failure (ToString ext jsonResult), s)
                 else
                   (case FindClassData serializeContext classId of
                      None \<Rightarrow> (Fault NullClassData, s)
                    | Some classData \<Rightarrow>
                        (let jsonDocument =
                               JObject [(FileTypeTag, JString FileType),
                                        (VersionTag, JInt 1),
                                        (ClassNameTag, JString (c_str (m_name classData))),
                                        (ClassDataTag, serializedObject)]
                         in case Accept ext jsonDocument of
                              (text, jsonWriteResult) \<Rightarrow>
                                (case Write stream text s of
                                   (written, s') \<Rightarrow>
                                     if \<not> jsonWriteResult
                                     then (Failure (''Unable to write class ''
                                                    @ c_str (Uuid_ToString ext classId)
                                                    @ '' with json serialization format''
                                                    @ [CHR 0x27]), s')
                                     else (Success (), s'))))))"

definition SaveObjectToFileByType ::
  "'o collaborators \<Rightarrow> 'fs FileIO \<Rightarrow> 'o \<Rightarrow> Uuid \<Rightarrow> string \<Rightarrow> 'fs \<Rightarrow> 'o option
     \<Rightarrow> 'o JsonSettings option \<Rightarrow> unit Outcome \<times> 'fs" where
  "SaveObjectToFileByType ext files classPtr classId filePath fs defaultClassPtr settings =
     (case SaveObjectToStreamByType ext classPtr classId ByteContainerStream ([], 0)
             defaultClassPtr settings of
        (saveResult, byteStream) \<Rightarrow>
          if IsSuccess saveResult
          then (case OpenForWrite files (c_str filePath) fs of
                  (opened, fs') \<Rightarrow>
                    if \<not> opened
                    then (Failure (''Error opening file '' @ [CHR 0x27] @ c_str filePath
                                   @ [CHR 0x27] @ '' for writing''), fs')
                    else (saveResult, WriteOpened files (c_str filePath) (fst byteStream) fs'))
          else (saveResult, fs))"

section \<open>Loading: settings and the reporting callback\<close>

definition uuid_message :: string where
  "uuid_message = ''No part of the string could be interpreted as a uuid.''"

text \<open>
  The lambda \<^verbatim>\<open>issueReportingCallback\<close>. It captures \<^verbatim>\<open>deserializeError\<close> by reference:
  the buffer is passed in and returned. \<^verbatim>\<open>reporting\<close> is the callback the caller's
  settings held, if any.
\<close>

definition issueReportingCallback ::
  "JsonIssueCallback option \<Rightarrow> string \<Rightarrow> ResultCode \<Rightarrow> string_view \<Rightarrow> string
     \<Rightarrow> ResultCode \<times> string" where
  "issueReportingCallback reporting message result target deserializeError =
     (let deserializeError' =
            (if \<not> WasLoadSuccess (GetOutcome result)
             then (if message \<noteq> uuid_message
                   then deserializeError @ message
                        @ ([CHR '' '', CHR 0x27] @ c_str (view_data target)
                           @ [CHR 0x27, CHR '' '', CHR 0x0A])
                   else deserializeError)
             else deserializeError)
      in case reporting of
           Some callback \<Rightarrow> (callback message result target, deserializeError')
         | None \<Rightarrow> (result, deserializeError'))"

text \<open>
  The settings a load runs with: the serialize context, now known to be there, and the
  callback installed around the caller's.
\<close>

record 'o LoadSettings =
  l_serializeContext :: "'o SerializeContext"
  l_reporting :: "string \<Rightarrow> ResultCode \<Rightarrow> string_view \<Rightarrow> string \<Rightarrow> ResultCode \<times> string"

definition PrepareDeserializerSettings ::
  "'o collaborators \<Rightarrow> 'o JsonSettings option \<Rightarrow> 'o LoadSettings Outcome" where
  "PrepareDeserializerSettings ext inputSettings =
     (let returnSettings =
            (case inputSettings of Some given \<Rightarrow> given | None \<Rightarrow> default_settings)
      in case (case m_serializeContext returnSettings of
                 Some context \<Rightarrow> Some context
               | None \<Rightarrow> GetSerializeContext ext) of
           None \<Rightarrow> Failure ''Need SerializeContext for loading''
         | Some context \<Rightarrow>
             Success \<lparr>l_serializeContext = context,
                      l_reporting = issueReportingCallback (m_reporting returnSettings)\<rparr>)"

section \<open>Loading: reading and parsing\<close>

text \<open>
  The loop of \<^verbatim>\<open>ParseJson\<close> that turns the error offset into a line number: it visits
  the newlines of the text from the first, counts one while its offset is below the error
  offset, and stops at the first that is not.
\<close>

fun count_lines :: "string \<Rightarrow> nat \<Rightarrow> nat \<Rightarrow> nat \<Rightarrow> nat" where
  "count_lines [] offset errorOffset lineNumber = lineNumber"
| "count_lines (c # cs) offset errorOffset lineNumber =
     (if c = CHR 0x0A
      then (if offset < errorOffset
            then count_lines cs (offset + 1) errorOffset (lineNumber + 1)
            else lineNumber)
      else count_lines cs (offset + 1) errorOffset lineNumber)"

definition ParseJson :: "'o collaborators \<Rightarrow> string \<Rightarrow> json Outcome" where
  "ParseJson ext jsonText =
     (case Parse ext jsonText of
        Inl (errorOffset, errorText) \<Rightarrow>
          Failure (''JSON parse error at line ''
                   @ format_zu (count_lines jsonText 0 errorOffset 1)
                   @ '': '' @ c_str errorText)
      | Inr jsonDocument \<Rightarrow> Success jsonDocument)"

definition LoadJson ::
  "'o collaborators \<Rightarrow> 's GenericStream \<Rightarrow> 's \<Rightarrow> json Outcome \<times> 's" where
  "LoadJson ext stream s =
     (let length = GetLength stream s in
      if length > MaxFileSize then (Failure ''Data is too large.'', s)
      else
        (case Read stream length s of
           (memoryBuffer, s') \<Rightarrow>
             if List.length memoryBuffer \<noteq> length
             then (Failure ''Cannot to read input stream.'', s')
             else (ParseJson ext (memoryBuffer @ [CHR 0x00]), s')))"

section \<open>Loading: the two entry points\<close>

definition LoadObjectFromStreamByType ::
  "'o collaborators \<Rightarrow> 'o \<Rightarrow> Uuid \<Rightarrow> 's GenericStream \<Rightarrow> 's \<Rightarrow> 'o JsonSettings option
     \<Rightarrow> unit Outcome \<times> 'o \<times> 's" where
  "LoadObjectFromStreamByType ext objectToLoad classId stream s settings =
     (case PrepareDeserializerSettings ext settings of
        Failure error \<Rightarrow> (Failure error, objectToLoad, s)
      | Fault f \<Rightarrow> (Fault f, objectToLoad, s)
      | Success loadSettings \<Rightarrow>
          (case LoadJson ext stream s of
             (Failure error, s') \<Rightarrow> (Failure error, objectToLoad, s')
           | (Fault f, s') \<Rightarrow> (Fault f, objectToLoad, s')
           | (Success jsonDocument, s') \<Rightarrow>
               (case ValidateJsonClassHeader jsonDocument of
                  Failure error \<Rightarrow> (Failure error, objectToLoad, s')
                | Fault f \<Rightarrow> (Fault f, objectToLoad, s')
                | Success u \<Rightarrow>
                    (case jsonDocument of
                       JObject members \<Rightarrow>
                         (case FindMember members ClassNameTag of
                            None \<Rightarrow> (Fault EndIteratorDereferenced, objectToLoad, s')
                          | Some (JString className) \<Rightarrow>
                              (case FindClassData (l_serializeContext loadSettings) classId of
                                 None \<Rightarrow> (Fault NullClassData, objectToLoad, s')
                               | Some classData \<Rightarrow>
                                   if azstricmp (m_name classData) className \<noteq> 0
                                   then (Failure (''Try to load class '' @ c_str (m_name classData)
                                                  @ '' from class '' @ c_str className
                                                  @ '' data''), objectToLoad, s')
                                   else
                                     (case FindMember members ClassDataTag of
                                        None \<Rightarrow> (Fault EndIteratorDereferenced, objectToLoad, s')
                                      | Some payload \<Rightarrow>
                                          (case run_mapping (l_reporting loadSettings)
                                                  (Load ext objectToLoad classId payload
                                                     (l_serializeContext loadSettings)) [] of
                                             (result, loaded, deserializeErrors) \<Rightarrow>
                                               if \<not> WasLoadSuccess (GetOutcome result)
                                                  \<or> deserializeErrors \<noteq> []
                                               then (Failure deserializeErrors, loaded, s')
                                               else (Success (), loaded, s'))))
                          | Some v \<Rightarrow> (Fault NotAString, objectToLoad, s'))
                     | _ \<Rightarrow> (Fault NotAnObject, objectToLoad, s')))))"

fun GetError :: "'a Outcome \<Rightarrow> string" where
  "GetError (Failure error) = error"
| "GetError r = []"

text \<open>
  In \<^verbatim>\<open>LoadAnyObjectFromStream\<close> the header is validated into \<^verbatim>\<open>validateResult\<close>, and
  the guard that follows tests \<^verbatim>\<open>parseResult\<close> a second time; the model keeps both as
  they are written.
\<close>

definition LoadAnyObjectFromStream ::
  "'o collaborators \<Rightarrow> 's GenericStream \<Rightarrow> 's \<Rightarrow> 'o JsonSettings option
     \<Rightarrow> 'o Outcome \<times> 's" where
  "LoadAnyObjectFromStream ext stream s settings =
     (case PrepareDeserializerSettings ext settings of
        Failure error \<Rightarrow> (Failure error, s)
      | Fault f \<Rightarrow> (Fault f, s)
      | Success loadSettings \<Rightarrow>
          (case LoadJson ext stream s of
             (Failure error, s') \<Rightarrow> (Failure error, s')
           | (Fault f, s') \<Rightarrow> (Fault f, s')
           | (Success jsonDocument, s') \<Rightarrow>
               (case ValidateJsonClassHeader jsonDocument of
                  Fault f \<Rightarrow> (Fault f, s')
                | validateResult \<Rightarrow>
                    if \<not> IsSuccess (Success jsonDocument :: json Outcome)
                    then (Failure (GetError (Success jsonDocument :: json Outcome)), s')
                    else
                      (case jsonDocument of
                         JObject members \<Rightarrow>
                           (case FindMember members ClassNameTag of
                              None \<Rightarrow> (Fault EndIteratorDereferenced, s')
                            | Some (JString className) \<Rightarrow>
                                (case FindClassId (l_serializeContext loadSettings)
                                        (Crc32 ext (c_str className)) of
                                   classId # others \<Rightarrow>
                                     (let anyData = CreateAny (l_serializeContext loadSettings) classId
                                      in case FindMember members ClassDataTag of
                                           None \<Rightarrow> (Fault EndIteratorDereferenced, s')
                                         | Some objectData \<Rightarrow>
                                             (case run_mapping (l_reporting loadSettings)
                                                     (Load ext anyData classId objectData
                                                        (l_serializeContext loadSettings)) [] of
                                                (result, loaded, deserializeErrors) \<Rightarrow>
                                                  if \<not> WasLoadSuccess (GetOutcome result)
                                                     \<or> deserializeErrors \<noteq> []
                                                  then (Failure deserializeErrors, s')
                                                  else (Success loaded, s')))
                                 | [] \<Rightarrow>
                                     (Failure (''Can't find serialize context for class ''
                                               @ c_str className), s'))
                            | Some v \<Rightarrow> (Fault NotAString, s'))
                       | _ \<Rightarrow> (Fault NotAnObject, s')))))"

section \<open>Predicates the statements use\<close>

text \<open>The reporting callback the caller's settings hold, if any.\<close>

definition caller_reporting :: "'o JsonSettings option \<Rightarrow> JsonIssueCallback option" where
  "caller_reporting settings =
     (case settings of Some given \<Rightarrow> m_reporting given | None \<Rightarrow> None)"

text \<open>
  A run of the mapper in which every report that is made either carries a load-success
  outcome or carries the uuid message; the run is followed along the answers the installed
  callback gives.
\<close>

primrec only_suppressed_reports :: "JsonIssueCallback option \<Rightarrow> 'o mapping \<Rightarrow> bool" where
  "only_suppressed_reports reporting (Done result object) = True"
| "only_suppressed_reports reporting (Report message result target continue) =
     ((WasLoadSuccess (GetOutcome result) \<or> message = uuid_message)
      \<and> only_suppressed_reports reporting
            (continue (fst (issueReportingCallback reporting message result target []))))"

text \<open>The members of a document other than those named \<open>Version\<close>.\<close>

definition without_version :: "(string \<times> json) list \<Rightarrow> (string \<times> json) list" where
  "without_version members = filter (\<lambda>member. fst member \<noteq> VersionTag) members"

text \<open>
  The serialize context a save works with (the one in the caller's settings, else the one
  the bus answers with) and the settings it hands to \<open>Store\<close>.
\<close>

definition save_context :: "'o collaborators \<Rightarrow> 'o JsonSettings option \<Rightarrow> 'o SerializeContext option" where
  "save_context ext settings =
     (case m_serializeContext (case settings of Some given \<Rightarrow> given | None \<Rightarrow> default_settings) of
        Some context \<Rightarrow> Some context
      | None \<Rightarrow> GetSerializeContext ext)"

definition save_settings :: "'o JsonSettings option \<Rightarrow> 'o SerializeContext \<Rightarrow> 'o JsonSettings" where
  "save_settings settings context =
     (case settings of Some given \<Rightarrow> given | None \<Rightarrow> default_settings)
       \<lparr>m_serializeContext := Some context\<rparr>"

text \<open>The document a save builds around a class name and a payload.\<close>

definition saved_document :: "ClassData \<Rightarrow> json \<Rightarrow> json" where
  "saved_document classData serializedObject =
     JObject [(FileTypeTag, JString FileType),
              (VersionTag, JInt 1),
              (ClassNameTag, JString (c_str (m_name classData))),
              (ClassDataTag, serializedObject)]"

section \<open>A small instance of the collaborators\<close>

text \<open>
  One registered class, \<open>Named\<close>, whose objects are a single string stored under the
  field \<open>name\<close>. Its mapper reads \<open>name\<close>, reports a field \<open>id\<close> with the uuid message,
  and reports any other field as skipped; the writer prints compact text without escapes,
  and the parser reads back the writer's text of the documents listed in
  \<open>demo_documents\<close>.
\<close>

definition demo_classId :: Uuid where
  "demo_classId = 1"

definition demo_Crc32 :: "string \<Rightarrow> 32 word" where
  "demo_Crc32 name = of_nat (sum_list (map of_char (map ascii_tolower name)))"

definition demo_context :: "string SerializeContext" where
  "demo_context =
     \<lparr>FindClassData = (\<lambda>classId. if classId = 1 then Some \<lparr>m_name = ''Named''\<rparr> else None),
      FindClassId = (\<lambda>crc. if crc = demo_Crc32 ''Named'' then [1] else []),
      CreateAny = (\<lambda>classId. [])\<rparr>"

definition completed :: "Outcomes \<Rightarrow> ResultCode" where
  "completed outcome = \<lparr>GetProcessing = Completed, GetOutcome = outcome\<rparr>"

fun demo_fields :: "(string \<times> json) list \<Rightarrow> string \<Rightarrow> string mapping" where
  "demo_fields [] object = Done (completed Outcome_Success) object"
| "demo_fields ((k, v) # ms) object =
     (if k = ''name''
      then (case v of
              JString s \<Rightarrow> demo_fields ms s
            | _ \<Rightarrow> Report ''Expected a string'' (completed Outcome_Unsupported) (view_of k)
                     (\<lambda>answer. demo_fields ms object))
      else if k = ''id''
      then Report uuid_message (completed Outcome_Unsupported) (view_of k)
             (\<lambda>answer. demo_fields ms object)
      else Report ''Skipped unrecognized field'' (completed Outcome_Skipped) (view_of k)
             (\<lambda>answer. demo_fields ms object))"

definition demo_Load :: "string \<Rightarrow> Uuid \<Rightarrow> json \<Rightarrow> string SerializeContext \<Rightarrow> string mapping" where
  "demo_Load object classId payload context =
     (case payload of
        JObject ms \<Rightarrow> demo_fields ms object
      | _ \<Rightarrow> Report ''Expected an object''
               \<lparr>GetProcessing = Halted, GetOutcome = Outcome_Unsupported\<rparr> (view_of [])
               (\<lambda>answer. Done answer object))"

definition demo_Store ::
  "string \<Rightarrow> string option \<Rightarrow> Uuid \<Rightarrow> string JsonSettings \<Rightarrow> ResultCode \<times> json" where
  "demo_Store object defaultObject classId settings =
     (completed Outcome_Success, JObject [(''name'', JString object)])"

fun join :: "string \<Rightarrow> string list \<Rightarrow> string" where
  "join separator [] = []"
| "join separator [x] = x"
| "join separator (x # y # ys) = x @ separator @ join separator (y # ys)"

definition quoted :: "string \<Rightarrow> string" where
  "quoted s = [CHR 0x22] @ s @ [CHR 0x22]"

primrec demo_write :: "json \<Rightarrow> string" where
  "demo_write JNull = ''null''"
| "demo_write (JBool b) = (if b then ''true'' else ''false'')"
| "demo_write (JInt n) = (if n < 0 then ''-'' @ format_zu (nat (- n)) else format_zu (nat n))"
| "demo_write (JDouble w) = ''0.0''"
| "demo_write (JString s) = quoted s"
| "demo_write (JArray xs) = ''['' @ join '','' (map demo_write xs) @ '']''"
| "demo_write (JObject ms) =
     ''{'' @ join '','' (map (\<lambda>(k, text). quoted k @ '':'' @ text)
                          (map (map_prod id demo_write) ms)) @ ''}''"

definition demo_Accept :: "json \<Rightarrow> string \<times> bool" where
  "demo_Accept jsonDocument = (demo_write jsonDocument, True)"

definition envelope_members :: "string \<Rightarrow> json \<Rightarrow> (string \<times> json) list" where
  "envelope_members className payload =
     [(''Type'', JString ''JsonSerialization''), (''Version'', JInt 1),
      (''ClassName'', JString className), (''ClassData'', payload)]"

definition envelope :: "string \<Rightarrow> json \<Rightarrow> json" where
  "envelope className payload = JObject (envelope_members className payload)"

definition payload_plain :: json where
  "payload_plain = JObject [(''name'', JString ''Ada'')]"

definition payload_with_id :: json where
  "payload_with_id = JObject [(''name'', JString ''Ada''), (''id'', JString ''?'')]"

definition payload_with_age :: json where
  "payload_with_age = JObject [(''name'', JString ''Ada''), (''age'', JInt 36)]"

definition members_without_type :: "(string \<times> json) list" where
  "members_without_type = [(''ClassName'', JString ''Named''), (''ClassData'', payload_plain)]"

definition members_without_version :: "(string \<times> json) list" where
  "members_without_version =
     [(''Type'', JString ''JsonSerialization''), (''ClassName'', JString ''Named''),
      (''ClassData'', payload_plain)]"

definition demo_documents :: "json list" where
  "demo_documents =
     [envelope ''Named'' payload_plain,
      envelope ''Named'' payload_with_id,
      envelope ''Named'' payload_with_age,
      envelope ''Other'' payload_plain,
      JObject members_without_type,
      JObject members_without_version]"

definition demo_Parse :: "string \<Rightarrow> (nat \<times> string) + json" where
  "demo_Parse text =
     (case find (\<lambda>document. demo_write document @ [CHR 0x00] = text) demo_documents of
        Some document \<Rightarrow> Inr document
      | None \<Rightarrow> Inl (0, ''Invalid value.''))"

definition demo :: "string collaborators" where
  "demo =
     \<lparr>GetSerializeContext = Some demo_context,
      Store = demo_Store,
      Load = demo_Load,
      Parse = demo_Parse,
      Accept = demo_Accept,
      ToString = (\<lambda>result. ''The operation has halted''),
      Uuid_ToString = (\<lambda>classId. ''{00000000-0000-0000-0000-000000000001}''),
      Crc32 = demo_Crc32\<rparr>"

text \<open>The settings a load of the instance runs with when the caller gives none.\<close>

definition demo_loadSettings :: "string LoadSettings" where
  "demo_loadSettings =
     \<lparr>l_serializeContext = demo_context, l_reporting = issueReportingCallback None\<rparr>"

text \<open>A stream holding the writer's text of a document, positioned at its start.\<close>

definition stream_of :: "json \<Rightarrow> string \<times> nat" where
  "stream_of document = (demo_write document, 0)"

text \<open>
  A file system as a map from paths to contents: opening for write creates or truncates
  the file, and the write stores the bytes.
\<close>

definition demo_files :: "(string \<rightharpoonup> string) FileIO" where
  "demo_files =
     \<lparr>OpenForWrite = (\<lambda>path fs. (True, fs(path \<mapsto> []))),
      WriteOpened = (\<lambda>path bytes fs. fs(path \<mapsto> bytes))\<rparr>"

text \<open>A name of one mebibyte.\<close>

definition long_name :: string where
  "long_name = replicate (1024 * 1024) (CHR ''a'')"

section \<open>The document text: a writer and a parser\<close>

text \<open>
  The pretty writer and the parser are rapidjson's and are not in Utils.cpp. The spec has
  the parser turn text into a document or a parse error, and the writer be its structural
  inverse: a walk over the document that emits text. The definitions of this section
  follow that description; the layout of the text is not in the spec, and the writer here
  emits JSON without white space.
\<close>

text \<open>Modelled from the spec: the decimal digits, as the parser reads them.\<close>

definition is_digit :: "char \<Rightarrow> bool" where
  "is_digit c = (c \<in> set ''0123456789'')"

text \<open>Modelled from the spec: the value of a decimal digit.\<close>

definition digit_value :: "char \<Rightarrow> nat" where
  "digit_value c = length (takeWhile (\<lambda>d. d \<noteq> c) ''0123456789'')"

text \<open>Modelled from the spec: the number a run of decimal digits stands for.\<close>

definition read_nat :: "string \<Rightarrow> nat" where
  "read_nat ds = foldl (\<lambda>n c. 10 * n + digit_value c) 0 ds"

text \<open>
  Modelled from the spec: a character inside a string of the text; the quote and the
  backslash are written after a backslash.
\<close>

definition escape :: "char \<Rightarrow> string" where
  "escape c = (if c = CHR 0x22 \<or> c = CHR 0x5C then [CHR 0x5C, c] else [c])"

text \<open>Modelled from the spec: a string of the text, between quotes.\<close>

definition write_string :: "string \<Rightarrow> string" where
  "write_string s = CHR 0x22 # concat (map escape s) @ [CHR 0x22]"

text \<open>
  Modelled from the spec: the writer, a walk over the document that emits its text:
  integers in decimal, members and elements separated by commas, the members of an object
  in their order. A double is emitted as \<^verbatim>\<open>0.0\<close> and is the one value the parser does
  not give back.
\<close>

primrec spec_write :: "json \<Rightarrow> string" where
  "spec_write JNull = ''null''"
| "spec_write (JBool b) = (if b then ''true'' else ''false'')"
| "spec_write (JInt n) = (if n < 0 then CHR ''-'' # format_zu (nat (- n)) else format_zu (nat n))"
| "spec_write (JDouble w) = ''0.0''"
| "spec_write (JString s) = write_string s"
| "spec_write (JArray xs) = CHR ''['' # join '','' (map spec_write xs) @ '']''"
| "spec_write (JObject ms) =
     CHR ''{'' # join '','' (map (\<lambda>(k, written). write_string k @ CHR '':'' # written)
                               (map (map_prod id spec_write) ms)) @ ''}''"

text \<open>
  Modelled from the spec: the parser reading a string after its opening quote. It gives
  the string with the input left after the closing quote, or the input left at the place
  it failed.
\<close>

fun read_string :: "string \<Rightarrow> string + (string \<times> string)" where
  "read_string [] = Inl []"
| "read_string (c # cs) =
     (if c = CHR 0x22 then Inr ([], cs)
      else if c = CHR 0x5C
      then (case cs of
              [] \<Rightarrow> Inl []
            | d # ds \<Rightarrow>
                if d = CHR 0x22 \<or> d = CHR 0x5C
                then (case read_string ds of
                        Inl failed \<Rightarrow> Inl failed
                      | Inr (s, rest) \<Rightarrow> Inr (d # s, rest))
                else Inl cs)
      else (case read_string cs of
              Inl failed \<Rightarrow> Inl failed
            | Inr (s, rest) \<Rightarrow> Inr (c # s, rest)))"

text \<open>
  Modelled from the spec: the parser. \<open>parse_value\<close>, \<open>parse_elements\<close> and
  \<open>parse_members\<close> read a value, the elements of an array after \<^verbatim>\<open>[\<close> and the members
  of an object after \<^verbatim>\<open>{\<close>. Each gives what it read with the input left over, or the
  input left at the place it failed. The first argument bounds the nesting and the number
  of values read; the length of the input is always enough.
\<close>

fun parse_value :: "nat \<Rightarrow> string \<Rightarrow> string + (json \<times> string)"
and parse_elements :: "nat \<Rightarrow> string \<Rightarrow> string + (json list \<times> string)"
and parse_members :: "nat \<Rightarrow> string \<Rightarrow> string + ((string \<times> json) list \<times> string)"
where
  "parse_value 0 input = Inl input"
| "parse_value (Suc fuel) [] = Inl []"
| "parse_value (Suc fuel) (c # cs) =
     (if c = CHR ''{''
      then (case cs of
              [] \<Rightarrow> Inl []
            | d # ds \<Rightarrow>
                if d = CHR ''}'' then Inr (JObject [], ds)
                else (case parse_members fuel cs of
                        Inl failed \<Rightarrow> Inl failed
                      | Inr (ms, rest) \<Rightarrow> Inr (JObject ms, rest)))
      else if c = CHR ''[''
      then (case cs of
              [] \<Rightarrow> Inl []
            | d # ds \<Rightarrow>
                if d = CHR '']'' then Inr (JArray [], ds)
                else (case parse_elements fuel cs of
                        Inl failed \<Rightarrow> Inl failed
                      | Inr (xs, rest) \<Rightarrow> Inr (JArray xs, rest)))
      else if c = CHR 0x22
      then (case read_string cs of
              Inl failed \<Rightarrow> Inl failed
            | Inr (s, rest) \<Rightarrow> Inr (JString s, rest))
      else if c = CHR ''n''
      then (if take 3 cs = ''ull'' then Inr (JNull, drop 3 cs) else Inl (c # cs))
      else if c = CHR ''t''
      then (if take 3 cs = ''rue'' then Inr (JBool True, drop 3 cs) else Inl (c # cs))
      else if c = CHR ''f''
      then (if take 4 cs = ''alse'' then Inr (JBool False, drop 4 cs) else Inl (c # cs))
      else if c = CHR ''-''
      then (if takeWhile is_digit cs = [] then Inl cs
            else Inr (JInt (- int (read_nat (takeWhile is_digit cs))), dropWhile is_digit cs))
      else if is_digit c
      then Inr (JInt (int (read_nat (takeWhile is_digit (c # cs)))),
                dropWhile is_digit (c # cs))
      else Inl (c # cs))"
| "parse_elements 0 input = Inl input"
| "parse_elements (Suc fuel) input =
     (case parse_value fuel input of
        Inl failed \<Rightarrow> Inl failed
      | Inr (x, rest) \<Rightarrow>
          (case rest of
             [] \<Rightarrow> Inl []
           | c # cs \<Rightarrow>
               if c = CHR '',''
               then (case parse_elements fuel cs of
                       Inl failed \<Rightarrow> Inl failed
                     | Inr (xs, rest') \<Rightarrow> Inr (x # xs, rest'))
               else if c = CHR '']'' then Inr ([x], cs)
               else Inl rest))"
| "parse_members 0 input = Inl input"
| "parse_members (Suc fuel) [] = Inl []"
| "parse_members (Suc fuel) (q # cs) =
     (if q \<noteq> CHR 0x22 then Inl (q # cs)
      else (case read_string cs of
              Inl failed \<Rightarrow> Inl failed
            | Inr (k, rest) \<Rightarrow>
                (case rest of
                   [] \<Rightarrow> Inl []
                 | colon # after \<Rightarrow>
                     if colon \<noteq> CHR '':'' then Inl rest
                     else (case parse_value fuel after of
                             Inl failed \<Rightarrow> Inl failed
                           | Inr (v, rest') \<Rightarrow>
                               (case rest' of
                                  [] \<Rightarrow> Inl []
                                | c # cs' \<Rightarrow>
                                    if c = CHR '',''
                                    then (case parse_members fuel cs' of
                                            Inl failed \<Rightarrow> Inl failed
                                          | Inr (ms, rest'') \<Rightarrow> Inr ((k, v) # ms, rest''))
                                    else if c = CHR ''}'' then Inr ([(k, v)], cs')
                                    else Inl rest')))))"


text \<open>
  Modelled from the spec: the parse of a whole text. The document may be followed by a
  NUL, as the buffer \<open>LoadJson\<close> hands over is; the error is the offset of the input left
  and an English message.
\<close>

definition spec_Parse :: "string \<Rightarrow> (nat \<times> string) + json" where
  "spec_Parse input =
     (case parse_value (length input) input of
        Inl failed \<Rightarrow> Inl (length input - length failed, ''Invalid value.'')
      | Inr (document, rest) \<Rightarrow>
          (case rest of
             [] \<Rightarrow> Inr document
           | c # cs \<Rightarrow>
               if c = CHR 0x00 then Inr document
               else Inl (length input - length rest,
                         ''The document root must not be followed by other values.'')))"


text \<open>The documents without a double.\<close>

primrec double_free :: "json \<Rightarrow> bool" where
  "double_free JNull = True"
| "double_free (JBool b) = True"
| "double_free (JInt n) = True"
| "double_free (JDouble w) = False"
| "double_free (JString s) = True"
| "double_free (JArray xs) = list_all (\<lambda>b. b) (map double_free xs)"
| "double_free (JObject ms) = list_all snd (map (map_prod id double_free) ms)"


section \<open>The object model and the object mapper\<close>

text \<open>
  The type and object model and \<^verbatim>\<open>JsonSerialization::Store\<close> and \<^verbatim>\<open>Load\<close> are outside
  Utils.cpp. The spec has the object model look a type up by id and by name, construct
  its default instance, and enumerate and set the fields of an instance, and has the
  mapper encode the fields into the payload and decode them from it. The definitions of
  this section follow that description.
\<close>

text \<open>Modelled from the spec: the value of a field, an integer, a boolean or a string.\<close>

datatype field_value = IntField int | BoolField bool | StringField string

text \<open>Modelled from the spec: an object, its fields by name in the order of its type.\<close>

type_synonym reflected = "(string \<times> field_value) list"

text \<open>
  Modelled from the spec: the registered types, each an id with the name of the type and
  its default instance.
\<close>

type_synonym registry = "(Uuid \<times> string \<times> reflected) list"

text \<open>Modelled from the spec: two field values of the same kind.\<close>

fun same_kind :: "field_value \<Rightarrow> field_value \<Rightarrow> bool" where
  "same_kind (IntField a) (IntField b) = True"
| "same_kind (BoolField a) (BoolField b) = True"
| "same_kind (StringField a) (StringField b) = True"
| "same_kind a b = False"

text \<open>
  Modelled from the spec: an instance of a type has the field names of the type's default
  instance, in its order, and values of the same kinds.
\<close>

definition instance_of :: "reflected \<Rightarrow> reflected \<Rightarrow> bool" where
  "instance_of initial object =
     (map fst object = map fst initial
      \<and> list_all2 same_kind (map snd initial) (map snd object))"

text \<open>
  Modelled from the spec: the type registered under an id, given by its default instance.
  The names of its fields are distinct: they are the keys of the payload object, and the
  spec has the keys of an object node unique.
\<close>

definition registered :: "registry \<Rightarrow> Uuid \<Rightarrow> reflected \<Rightarrow> bool" where
  "registered types classId initial =
     (map_option snd (map_of types classId) = Some initial \<and> distinct (map fst initial))"

text \<open>
  Modelled from the spec: the object model over the registered types: the type of an id,
  the ids of the types whose name has a hash, and the default instance of a type.
\<close>

definition spec_context :: "registry \<Rightarrow> reflected SerializeContext" where
  "spec_context types =
     \<lparr>FindClassData =
        (\<lambda>classId. case map_of types classId of
                      None \<Rightarrow> None
                    | Some (name, initial) \<Rightarrow> Some \<lparr>m_name = name\<rparr>),
      FindClassId =
        (\<lambda>crc. map fst (filter (\<lambda>entry. demo_Crc32 (fst (snd entry)) = crc) types)),
      CreateAny =
        (\<lambda>classId. case map_of types classId of
                      None \<Rightarrow> []
                    | Some (name, initial) \<Rightarrow> initial)\<rparr>"

text \<open>Modelled from the spec: the document value of a field value.\<close>

fun encode_field :: "field_value \<Rightarrow> json" where
  "encode_field (IntField n) = JInt n"
| "encode_field (BoolField b) = JBool b"
| "encode_field (StringField s) = JString s"

text \<open>Modelled from the spec: the members that encode the fields of an object.\<close>

definition encode_fields :: "reflected \<Rightarrow> (string \<times> json) list" where
  "encode_fields object = map (map_prod id encode_field) object"

text \<open>
  Modelled from the spec: store encodes the fields of the object into an object value;
  with a default object, a field whose value equals the default's field of that name is
  left out, and without one all fields are written.
\<close>

definition spec_Store ::
  "reflected \<Rightarrow> reflected option \<Rightarrow> Uuid \<Rightarrow> reflected JsonSettings \<Rightarrow> ResultCode \<times> json" where
  "spec_Store object defaultObject classId settings =
     (completed Outcome_Success,
      JObject (encode_fields
                 (case defaultObject of
                    None \<Rightarrow> object
                  | Some initial \<Rightarrow>
                      filter (\<lambda>field. map_of initial (fst field) \<noteq> Some (snd field)) object)))"

text \<open>
  Modelled from the spec: the field value a document value decodes to, for a field that
  holds a value of some kind; \<open>None\<close> when the document value is of another kind.
\<close>

fun decode_field :: "field_value \<Rightarrow> json \<Rightarrow> field_value option" where
  "decode_field (IntField old) (JInt n) = Some (IntField n)"
| "decode_field (BoolField old) (JBool b) = Some (BoolField b)"
| "decode_field (StringField old) (JString s) = Some (StringField s)"
| "decode_field old j = None"

text \<open>
  Modelled from the spec: a field of the target takes the payload member of its name when
  that decodes to the field's kind, and is left as it is when the payload has no such
  member (in a default-constructed target, at the type's default value).
\<close>

definition load_field :: "(string \<times> json) list \<Rightarrow> string \<times> field_value \<Rightarrow> string \<times> field_value" where
  "load_field members field =
     (case FindMember members (fst field) of
        None \<Rightarrow> field
      | Some j \<Rightarrow>
          (case decode_field (snd field) j of
             None \<Rightarrow> field
           | Some new \<Rightarrow> (fst field, new)))"

text \<open>
  Modelled from the spec: the reports a member of the payload leads to. A member that
  names no field of the target is reported as skipped and a member of another kind than
  its field as unsupported, with the path of the member as the target of the report.
\<close>

definition member_reports ::
  "reflected \<Rightarrow> string \<times> json \<Rightarrow> (string \<times> ResultCode \<times> string_view) list" where
  "member_reports target member =
     (case map_of target (fst member) of
        None \<Rightarrow>
          [(''Skipped unrecognized field'', completed Outcome_Skipped,
            view_of (CHR ''/'' # fst member))]
      | Some old \<Rightarrow>
          (case decode_field old (snd member) of
             None \<Rightarrow>
               [(''Unsupported type'', completed Outcome_Unsupported,
                 view_of (CHR ''/'' # fst member))]
           | Some new \<Rightarrow> []))"

text \<open>
  Modelled from the spec: the final outcome of a load: \<open>Unsupported\<close> or \<open>Skipped\<close>
  after such reports, \<open>DefaultsUsed\<close> when no field was in the payload,
  \<open>PartialDefaults\<close> when some were not, and \<open>Success\<close> otherwise.
\<close>

definition load_outcome :: "reflected \<Rightarrow> (string \<times> json) list \<Rightarrow> Outcomes" where
  "load_outcome target members =
     (let reports = concat (map (member_reports target) members) in
      if list_ex (\<lambda>report. GetOutcome (fst (snd report)) = Outcome_Unsupported) reports
      then Outcome_Unsupported
      else if reports \<noteq> [] then Outcome_Skipped
      else if target \<noteq> [] \<and> list_all (\<lambda>field. FindMember members (fst field) = None) target
      then Outcome_DefaultsUsed
      else if list_ex (\<lambda>field. FindMember members (fst field) = None) target
      then Outcome_PartialDefaults
      else Outcome_Success)"

text \<open>
  Modelled from the spec: the reports made one after the other through the reporting
  callback, before the run goes on.
\<close>

primrec emit :: "(string \<times> ResultCode \<times> string_view) list \<Rightarrow> 'o mapping \<Rightarrow> 'o mapping" where
  "emit [] finish = finish"
| "emit (report # reports) finish =
     Report (fst report) (fst (snd report)) (snd (snd report))
       (\<lambda>answer. emit reports finish)"

text \<open>
  Modelled from the spec: load decodes the payload into the target: it makes the reports
  of the members, and ends with the final outcome and the target's fields as loaded. A
  payload that is not an object is reported as unsupported and leaves the target as it
  is.
\<close>

definition spec_Load ::
  "reflected \<Rightarrow> Uuid \<Rightarrow> json \<Rightarrow> reflected SerializeContext \<Rightarrow> reflected mapping" where
  "spec_Load target classId payload context =
     (case payload of
        JObject members \<Rightarrow>
          emit (concat (map (member_reports target) members))
            (Done (completed (load_outcome target members))
               (map (load_field members) target))
      | _ \<Rightarrow>
          Report ''Expected an object'' (completed Outcome_Unsupported) (view_of [])
            (\<lambda>answer. Done answer target))"

text \<open>
  Modelled from the spec: the collaborators as the spec describes them, over the
  registered types: the bus answers with the object model of these types, the mapper
  stores and loads their instances, and the writer and the parser are those above.
\<close>

definition spec_collaborators :: "registry \<Rightarrow> reflected collaborators" where
  "spec_collaborators types =
     \<lparr>GetSerializeContext = Some (spec_context types),
      Store = spec_Store,
      Load = spec_Load,
      Parse = spec_Parse,
      Accept = (\<lambda>document. (spec_write document, True)),
      ToString = (\<lambda>result. ''The operation has halted''),
      Uuid_ToString = (\<lambda>classId. ''{00000000-0000-0000-0000-000000000000}''),
      Crc32 = demo_Crc32\<rparr>"


text \<open>
  Modelled from the spec: a type \<open>Named\<close> with one string field, \<open>name\<close>, empty by
  default.
\<close>

definition named_types :: registry where
  "named_types = [(1, ''Named'', [(''name'', StringField [])])]"

section \<open>Lemmas on strings and member lookup\<close>

lemma of_char_nat_eq_0_iff: "(of_char c :: nat) = 0 \<longleftrightarrow> c = CHR 0x00"
  by (cases c) auto

lemma ascii_tolower_eq_NUL_iff: "ascii_tolower c = CHR 0x00 \<longleftrightarrow> c = CHR 0x00"
  by (cases c) (auto simp add: ascii_tolower_def isupper_def)

lemma NUL_eq_ascii_tolower_iff: "CHR 0x00 = ascii_tolower c \<longleftrightarrow> c = CHR 0x00"
  using ascii_tolower_eq_NUL_iff [of c] by auto

lemma ascii_tolower_NUL: "ascii_tolower (CHR 0x00) = CHR 0x00"
  by (simp add: ascii_tolower_def isupper_def)

lemma of_char_ascii_tolower_eq_0_iff:
  "(of_char (ascii_tolower c) :: nat) = 0 \<longleftrightarrow> c = CHR 0x00"
  by (simp add: of_char_nat_eq_0_iff ascii_tolower_eq_NUL_iff)

lemma azstricmp_eq_0_iff:
  "azstricmp a b = 0 \<longleftrightarrow> map ascii_tolower (c_str a) = map ascii_tolower (c_str b)"
proof (induction a b rule: azstricmp.induct)
  case 1
  show ?case by (simp add: c_str_def)
next
  case (2 y ys)
  show ?case by (simp add: c_str_def of_char_ascii_tolower_eq_0_iff)
next
  case (3 x xs)
  show ?case by (simp add: c_str_def of_char_ascii_tolower_eq_0_iff)
next
  case (4 x xs y ys)
  then show ?case
    by (auto simp add: c_str_def ascii_tolower_eq_NUL_iff NUL_eq_ascii_tolower_iff
          ascii_tolower_NUL)
qed


lemma c_str_without_NUL: "CHR 0x00 \<notin> set s \<Longrightarrow> c_str s = s"
  by (auto simp add: c_str_def)


lemma azstricmp_refl: "azstricmp a a = 0"
  by (simp add: azstricmp_eq_0_iff)

lemma FindMember_map_of: "FindMember ms name = map_of ms name"
  by (induction ms) auto

lemma c_str_FileType: "c_str ''JsonSerialization'' = ''JsonSerialization''"
  by (simp add: c_str_def)

section \<open>Header validation: the checks and their order\<close>

text \<open>
  C2. \<open>ValidateJsonClassHeader\<close> on a document whose root is an object makes three checks
  in this order and returns the message of the first that fails: the \<open>Type\<close> member is
  there, is a string and compares equal to \<open>JsonSerialization\<close> without regard to case,
  else "Not a valid JsonSerialization file"; the \<open>ClassName\<close> member is there and is a
  string, else "File should contain ClassName"; the \<open>ClassData\<close> member, when there, is
  an object, else "ClassData should be an object". The source function agrees with the
  specification's three checks on every member list, and a document without \<open>Type\<close>
  gets the first message whatever else it holds or lacks.
\<close>

theorem ValidateJsonClassHeader_checks_in_order:
  "ValidateJsonClassHeader (JObject members) = spec_validateHeader members
   \<and> (FindMember members FileTypeTag = None \<longrightarrow>
        ValidateJsonClassHeader (JObject members) =
          Failure ''Not a valid JsonSerialization file'')
   \<and> (spec_type_tag_ok members \<and> \<not> spec_class_name_ok members \<longrightarrow>
        ValidateJsonClassHeader (JObject members) = Failure ''File should contain ClassName'')
   \<and> (spec_type_tag_ok members \<and> spec_class_name_ok members
        \<and> \<not> spec_class_data_ok members \<longrightarrow>
        ValidateJsonClassHeader (JObject members) = Failure ''ClassData should be an object'')
   \<and> (spec_type_tag_ok members \<and> spec_class_name_ok members \<and> spec_class_data_ok members \<longrightarrow>
        ValidateJsonClassHeader (JObject members) = Success ())"
proof -
  have eq: "ValidateJsonClassHeader (JObject members) = spec_validateHeader members"
    unfolding ValidateJsonClassHeader_def spec_validateHeader_def spec_type_tag_ok_def
      spec_class_name_ok_def spec_class_data_ok_def FileTypeTag_def FileType_def
      ClassNameTag_def ClassDataTag_def
    by (simp add: FindMember_map_of azstricmp_eq_0_iff c_str_FileType
          split: option.splits json.splits)
  have missing: "FindMember members FileTypeTag = None \<Longrightarrow> \<not> spec_type_tag_ok members"
    by (simp add: FindMember_map_of spec_type_tag_ok_def FileTypeTag_def)
  show ?thesis
    using missing by (auto simp add: eq spec_validateHeader_def)
qed

theorem ValidateJsonClassHeader_checks_in_order_witness:
  "FindMember [(''Version'', JInt 1)] FileTypeTag = None
   \<and> FindMember [(''Version'', JInt 1)] ClassNameTag = None
   \<and> ValidateJsonClassHeader (JObject [(''Version'', JInt 1)]) =
       Failure ''Not a valid JsonSerialization file''
   \<and> spec_type_tag_ok [(''Type'', JString ''JSONserialization'')]
   \<and> \<not> spec_class_name_ok [(''Type'', JString ''JSONserialization'')]
   \<and> ValidateJsonClassHeader (JObject [(''Type'', JString ''JSONserialization'')]) =
       Failure ''File should contain ClassName''"
proof -
  have a: "FindMember [(''Version'', JInt 1)] FileTypeTag = None"
    by (simp add: FileTypeTag_def)
  have b: "FindMember [(''Version'', JInt 1)] ClassNameTag = None"
    by (simp add: ClassNameTag_def)
  have c: "spec_type_tag_ok [(''Type'', JString ''JSONserialization'')]"
    by (simp add: spec_type_tag_ok_def c_str_def ascii_tolower_def isupper_def)
  have d: "\<not> spec_class_name_ok [(''Type'', JString ''JSONserialization'')]"
    by (simp add: spec_class_name_ok_def)
  have e: "ValidateJsonClassHeader (JObject [(''Version'', JInt 1)]) =
      Failure ''Not a valid JsonSerialization file''"
    using a ValidateJsonClassHeader_checks_in_order [of "[(''Version'', JInt 1)]"]
    by blast
  have f: "ValidateJsonClassHeader (JObject [(''Type'', JString ''JSONserialization'')]) =
      Failure ''File should contain ClassName''"
    using c d
      ValidateJsonClassHeader_checks_in_order [of "[(''Type'', JString ''JSONserialization'')]"]
    by blast
  show ?thesis
    using a b c d e f by blast
qed

section \<open>Evaluating the small instance\<close>

lemmas demo_defs = demo_def demo_context_def demo_Crc32_def demo_Load_def demo_Store_def
  demo_Accept_def demo_Parse_def demo_documents_def envelope_def envelope_members_def
  stream_of_def quoted_def
  demo_classId_def completed_def ByteContainerStream_def payload_plain_def view_of_def
  payload_with_id_def payload_with_age_def members_without_type_def
  members_without_version_def demo_loadSettings_def

lemmas tag_defs = FileTypeTag_def FileType_def VersionTag_def ClassNameTag_def ClassDataTag_def

lemmas load_defs = LoadObjectFromStreamByType_def LoadAnyObjectFromStream_def
  PrepareDeserializerSettings_def LoadJson_def ParseJson_def
  ValidateJsonClassHeader_def default_settings_def MaxFileSize_def issueReportingCallback_def
  WasLoadSuccess_def uuid_message_def c_str_def Let_def

lemma length_long_name: "length long_name = 1048576"
  by (simp add: long_name_def)

section \<open>Reading a stream: the size guard and the short read\<close>

lemma LoadJson_too_large:
  "MaxFileSize < GetLength stream s \<Longrightarrow>
   LoadJson ext stream s = (Failure ''Data is too large.'', s)"
  by (simp add: LoadJson_def)

lemma LoadJson_short_read:
  "GetLength stream s \<le> MaxFileSize \<Longrightarrow>
   length (fst (Read stream (GetLength stream s) s)) \<noteq> GetLength stream s \<Longrightarrow>
   LoadJson ext stream s =
     (Failure ''Cannot to read input stream.'', snd (Read stream (GetLength stream s) s))"
  by (cases "Read stream (GetLength stream s) s") (simp add: LoadJson_def Let_def)

lemma LoadJson_parses:
  "GetLength stream s \<le> MaxFileSize \<Longrightarrow>
   length (fst (Read stream (GetLength stream s) s)) = GetLength stream s \<Longrightarrow>
   LoadJson ext stream s =
     (ParseJson ext (fst (Read stream (GetLength stream s) s) @ [CHR 0x00]),
      snd (Read stream (GetLength stream s) s))"
  by (cases "Read stream (GetLength stream s) s") (simp add: LoadJson_def Let_def)

lemma ParseJson_failure_text:
  "ParseJson ext jsonText = Failure error \<Longrightarrow> take 5 error = ''JSON ''"
  by (auto simp add: ParseJson_def split: sum.splits prod.splits)

text \<open>
  C7. \<open>LoadJson\<close> on a stream whose reported length is above the maximum of 1 MiB
  (1048576 bytes) returns the failure "Data is too large." and leaves the stream as it
  was, whatever the stream's read operation and whatever the parser are: neither is
  used. On a stream within the maximum whose read delivers a number of bytes other than
  the reported length it returns the failure "Cannot to read input stream.", again
  whatever the parser is. The two messages differ from each other, and no failure of
  \<open>ParseJson\<close> carries either.
\<close>

theorem LoadJson_size_and_read_guards:
  "(MaxFileSize < GetLength stream s \<longrightarrow>
      LoadJson ext (stream\<lparr>Read := anyRead\<rparr>) s = (Failure ''Data is too large.'', s))
   \<and> (GetLength stream s \<le> MaxFileSize
        \<and> length (fst (Read stream (GetLength stream s) s)) \<noteq> GetLength stream s \<longrightarrow>
      LoadJson ext stream s =
        (Failure ''Cannot to read input stream.'', snd (Read stream (GetLength stream s) s)))
   \<and> MaxFileSize = 1048576
   \<and> ''Data is too large.'' \<noteq> ''Cannot to read input stream.''
   \<and> (\<forall>jsonText. ParseJson ext jsonText \<noteq> Failure ''Data is too large.''
                 \<and> ParseJson ext jsonText \<noteq> Failure ''Cannot to read input stream.'')"
proof -
  have a: "MaxFileSize < GetLength stream s \<Longrightarrow>
      LoadJson ext (stream\<lparr>Read := anyRead\<rparr>) s = (Failure ''Data is too large.'', s)"
    by (simp add: LoadJson_too_large)
  have c: "ParseJson ext jsonText \<noteq> Failure ''Data is too large.''
             \<and> ParseJson ext jsonText \<noteq> Failure ''Cannot to read input stream.''"
    for jsonText
    using ParseJson_failure_text [of ext jsonText] by auto
  show ?thesis
    using a c LoadJson_short_read [of stream s ext] by (simp add: MaxFileSize_def)
qed

theorem LoadJson_size_and_read_guards_witness:
  "MaxFileSize < GetLength ByteContainerStream (long_name @ ''a'', 0)
   \<and> LoadJson demo (ByteContainerStream\<lparr>Read := (\<lambda>n s. ([], s))\<rparr>) (long_name @ ''a'', 0) =
       (Failure ''Data is too large.'', (long_name @ ''a'', 0))
   \<and> GetLength ByteContainerStream (''hello'', 3) \<le> MaxFileSize
   \<and> length (fst (Read ByteContainerStream (GetLength ByteContainerStream (''hello'', 3))
                    (''hello'', 3)))
        \<noteq> GetLength ByteContainerStream (''hello'', 3)
   \<and> LoadJson demo ByteContainerStream (''hello'', 3) =
       (Failure ''Cannot to read input stream.'', (''hello'', 5))"
proof -
  have a: "MaxFileSize < GetLength ByteContainerStream (long_name @ ''a'', 0)"
    by (simp add: ByteContainerStream_def MaxFileSize_def length_long_name)
  have b: "GetLength ByteContainerStream (''hello'', 3) \<le> MaxFileSize"
    by (simp add: ByteContainerStream_def MaxFileSize_def)
  have c: "length (fst (Read ByteContainerStream (GetLength ByteContainerStream (''hello'', 3))
                         (''hello'', 3)))
        \<noteq> GetLength ByteContainerStream (''hello'', 3)"
    by (simp add: ByteContainerStream_def)
  have d: "snd (Read ByteContainerStream (GetLength ByteContainerStream (''hello'', 3))
                 (''hello'', 3)) = (''hello'', 5)"
    by (simp add: ByteContainerStream_def)
  note t1 = LoadJson_size_and_read_guards
    [of ByteContainerStream "(long_name @ ''a'', 0)" demo "\<lambda>n s. ([], s)"]
  note t2 = LoadJson_size_and_read_guards [of ByteContainerStream "(''hello'', 3)" demo]
  have e: "LoadJson demo (ByteContainerStream\<lparr>Read := (\<lambda>n s. ([], s))\<rparr>) (long_name @ ''a'', 0) =
       (Failure ''Data is too large.'', (long_name @ ''a'', 0))"
    using a t1 by blast
  have f: "LoadJson demo ByteContainerStream (''hello'', 3) =
       (Failure ''Cannot to read input stream.'', (''hello'', 5))"
    using b c t2 d by metis
  show ?thesis using a b c e f by blast
qed

section \<open>Loading: from the document to the mapper's verdict\<close>

lemma Prepare_reporting:
  "PrepareDeserializerSettings ext settings = Success loadSettings \<Longrightarrow>
   l_reporting loadSettings = issueReportingCallback (caller_reporting settings)"
  by (auto simp add: PrepareDeserializerSettings_def caller_reporting_def default_settings_def
        Let_def split: option.splits)

lemma by_type_tail:
  assumes "PrepareDeserializerSettings ext settings = Success loadSettings"
      and "fst (LoadJson ext stream s) = Success (JObject members)"
      and "ValidateJsonClassHeader (JObject members) = Success ()"
      and "FindMember members ClassNameTag = Some (JString className)"
      and "FindClassData (l_serializeContext loadSettings) classId = Some classData"
      and "azstricmp (m_name classData) className = 0"
      and "FindMember members ClassDataTag = Some payload"
      and "run_mapping (l_reporting loadSettings)
             (Load ext objectToLoad classId payload (l_serializeContext loadSettings)) []
           = (result, loaded, deserializeErrors)"
    shows "LoadObjectFromStreamByType ext objectToLoad classId stream s settings =
            (if WasLoadSuccess (GetOutcome result) \<and> deserializeErrors = []
             then Success () else Failure deserializeErrors, loaded,
             snd (LoadJson ext stream s))"
  using assms
  by (cases "LoadJson ext stream s") (simp add: LoadObjectFromStreamByType_def)

lemma Validate_object_cases:
  "(\<exists>error. ValidateJsonClassHeader (JObject members) = Failure error)
   \<or> ValidateJsonClassHeader (JObject members) = Success ()"
  by (simp add: ValidateJsonClassHeader_def)

lemma any_tail:
  assumes "PrepareDeserializerSettings ext settings = Success loadSettings"
      and "fst (LoadJson ext stream s) = Success (JObject members)"
      and "FindMember members ClassNameTag = Some (JString className)"
      and "FindClassId (l_serializeContext loadSettings) (Crc32 ext (c_str className))
             = classId # others"
      and "FindMember members ClassDataTag = Some payload"
      and "run_mapping (l_reporting loadSettings)
             (Load ext (CreateAny (l_serializeContext loadSettings) classId) classId payload
                (l_serializeContext loadSettings)) []
           = (result, loaded, deserializeErrors)"
    shows "LoadAnyObjectFromStream ext stream s settings =
            (if WasLoadSuccess (GetOutcome result) \<and> deserializeErrors = []
             then Success loaded else Failure deserializeErrors,
             snd (LoadJson ext stream s))"
  using assms Validate_object_cases [of members]
  by (cases "LoadJson ext stream s")
     (auto simp add: LoadAnyObjectFromStream_def Let_def split: Outcome.splits)

text \<open>
  C1. Once a load has its settings, has parsed an object document and finds the members
  \<open>ClassName\<close> (a string) and \<open>ClassData\<close>, its result is decided by the mapper's final
  result code and the diagnostics buffer alone. \<open>LoadObjectFromStreamByType\<close>, when the
  header is valid and the class name matches the registered one, and
  \<open>LoadAnyObjectFromStream\<close>, when the class name resolves to an id, return success if
  and only if the final outcome is \<open>Success\<close>, \<open>DefaultsUsed\<close> or \<open>PartialDefaults\<close> and the
  buffer is empty; in every other case they return the failure whose message is the
  buffer, also when the final outcome is \<open>Success\<close>.
\<close>

theorem load_succeeds_iff_outcome_ok_and_no_diagnostics:
  assumes "PrepareDeserializerSettings ext settings = Success loadSettings"
      and "fst (LoadJson ext stream s) = Success (JObject members)"
      and "FindMember members ClassNameTag = Some (JString className)"
      and "FindMember members ClassDataTag = Some payload"
    shows
     "(ValidateJsonClassHeader (JObject members) = Success ()
        \<and> FindClassData (l_serializeContext loadSettings) classId = Some classData
        \<and> azstricmp (m_name classData) className = 0
        \<and> run_mapping (l_reporting loadSettings)
             (Load ext objectToLoad classId payload (l_serializeContext loadSettings)) []
            = (result, loaded, deserializeErrors)
       \<longrightarrow> fst (LoadObjectFromStreamByType ext objectToLoad classId stream s settings) =
             (if WasLoadSuccess (GetOutcome result) \<and> deserializeErrors = []
              then Success () else Failure deserializeErrors)
           \<and> fst (snd (LoadObjectFromStreamByType ext objectToLoad classId stream s settings))
               = loaded)
      \<and> (FindClassId (l_serializeContext loadSettings) (Crc32 ext (c_str className))
            = anyId # others
          \<and> run_mapping (l_reporting loadSettings)
               (Load ext (CreateAny (l_serializeContext loadSettings) anyId) anyId payload
                  (l_serializeContext loadSettings)) []
              = (anyResult, anyLoaded, anyErrors)
       \<longrightarrow> fst (LoadAnyObjectFromStream ext stream s settings) =
             (if WasLoadSuccess (GetOutcome anyResult) \<and> anyErrors = []
              then Success anyLoaded else Failure anyErrors))"
proof (intro conjI impI)
  assume h: "ValidateJsonClassHeader (JObject members) = Success ()
        \<and> FindClassData (l_serializeContext loadSettings) classId = Some classData
        \<and> azstricmp (m_name classData) className = 0
        \<and> run_mapping (l_reporting loadSettings)
             (Load ext objectToLoad classId payload (l_serializeContext loadSettings)) []
            = (result, loaded, deserializeErrors)"
  have eq: "LoadObjectFromStreamByType ext objectToLoad classId stream s settings =
            (if WasLoadSuccess (GetOutcome result) \<and> deserializeErrors = []
             then Success () else Failure deserializeErrors, loaded,
             snd (LoadJson ext stream s))"
    using by_type_tail [OF assms(1) assms(2) _ assms(3) _ _ assms(4)] h by blast
  show "fst (LoadObjectFromStreamByType ext objectToLoad classId stream s settings) =
             (if WasLoadSuccess (GetOutcome result) \<and> deserializeErrors = []
              then Success () else Failure deserializeErrors)"
    by (simp add: eq)
  show "fst (snd (LoadObjectFromStreamByType ext objectToLoad classId stream s settings)) = loaded"
    by (simp add: eq)
next
  assume h: "FindClassId (l_serializeContext loadSettings) (Crc32 ext (c_str className))
            = anyId # others
          \<and> run_mapping (l_reporting loadSettings)
               (Load ext (CreateAny (l_serializeContext loadSettings) anyId) anyId payload
                  (l_serializeContext loadSettings)) []
              = (anyResult, anyLoaded, anyErrors)"
  have eq: "LoadAnyObjectFromStream ext stream s settings =
            (if WasLoadSuccess (GetOutcome anyResult) \<and> anyErrors = []
             then Success anyLoaded else Failure anyErrors,
             snd (LoadJson ext stream s))"
    using any_tail [OF assms(1) assms(2) assms(3) _ assms(4)] h by blast
  show "fst (LoadAnyObjectFromStream ext stream s settings) =
             (if WasLoadSuccess (GetOutcome anyResult) \<and> anyErrors = []
              then Success anyLoaded else Failure anyErrors)"
    by (simp add: eq)
qed

lemma demo_prepare: "PrepareDeserializerSettings demo None = Success demo_loadSettings"
  by (simp add: load_defs demo_defs)

lemma demo_context_of_settings: "l_serializeContext demo_loadSettings = demo_context"
  by (simp add: demo_loadSettings_def)

lemma demo_FindClassData:
  "FindClassData demo_context demo_classId = Some \<lparr>m_name = ''Named''\<rparr>"
  by (simp add: demo_defs)

lemma demo_FindClassId:
  "FindClassId demo_context (Crc32 demo (c_str ''Named'')) = [demo_classId]"
  by (simp add: demo_defs c_str_def)

lemma demo_LoadJson_with_age:
  "fst (LoadJson demo ByteContainerStream (stream_of (envelope ''Named'' payload_with_age)))
   = Success (JObject (envelope_members ''Named'' payload_with_age))"
  by (simp add: load_defs demo_defs tag_defs)

lemma demo_LoadJson_plain:
  "fst (LoadJson demo ByteContainerStream (stream_of (envelope ''Named'' payload_plain)))
   = Success (JObject (envelope_members ''Named'' payload_plain))"
  by (simp add: load_defs demo_defs tag_defs)

lemma demo_validate_envelope:
  "IsObject payload \<Longrightarrow>
   ValidateJsonClassHeader (JObject (envelope_members className payload)) = Success ()"
  by (simp add: ValidateJsonClassHeader_def envelope_members_def tag_defs azstricmp_refl)

lemma FindMember_envelope_ClassName:
  "FindMember (envelope_members className payload) ClassNameTag = Some (JString className)"
  by (simp add: envelope_members_def tag_defs)

lemma FindMember_envelope_ClassData:
  "FindMember (envelope_members className payload) ClassDataTag = Some payload"
  by (simp add: envelope_members_def tag_defs)

lemma demo_run_with_age:
  "run_mapping (l_reporting demo_loadSettings)
     (Load demo [] demo_classId payload_with_age (l_serializeContext demo_loadSettings)) []
   = (completed Outcome_Success, ''Ada'',
      ''Skipped unrecognized field 'age' '' @ [CHR 0x0A])"
  by (simp add: load_defs demo_defs)

lemma demo_run_plain:
  "run_mapping (l_reporting demo_loadSettings)
     (Load demo [] demo_classId payload_plain (l_serializeContext demo_loadSettings)) []
   = (completed Outcome_Success, ''Ada'', [])"
  by (simp add: load_defs demo_defs)

theorem load_succeeds_iff_outcome_ok_and_no_diagnostics_witness:
  "PrepareDeserializerSettings demo None = Success demo_loadSettings
   \<and> fst (LoadJson demo ByteContainerStream (stream_of (envelope ''Named'' payload_with_age)))
       = Success (JObject (envelope_members ''Named'' payload_with_age))
   \<and> FindMember (envelope_members ''Named'' payload_with_age) ClassNameTag
       = Some (JString ''Named'')
   \<and> FindMember (envelope_members ''Named'' payload_with_age) ClassDataTag
       = Some payload_with_age
   \<and> ValidateJsonClassHeader (JObject (envelope_members ''Named'' payload_with_age))
       = Success ()
   \<and> WasLoadSuccess (GetOutcome (completed Outcome_Success))
   \<and> fst (LoadObjectFromStreamByType demo [] demo_classId ByteContainerStream
             (stream_of (envelope ''Named'' payload_with_age)) None)
       = Failure (''Skipped unrecognized field 'age' '' @ [CHR 0x0A])
   \<and> fst (LoadAnyObjectFromStream demo ByteContainerStream
             (stream_of (envelope ''Named'' payload_plain)) None)
       = Success ''Ada''"
proof -
  have valid: "ValidateJsonClassHeader (JObject (envelope_members ''Named'' payload_with_age))
       = Success ()"
    by (simp add: demo_validate_envelope payload_with_age_def)
  have ok: "WasLoadSuccess (GetOutcome (completed Outcome_Success))"
    by (simp add: WasLoadSuccess_def completed_def)
  have run_any: "run_mapping (l_reporting demo_loadSettings)
     (Load demo (CreateAny (l_serializeContext demo_loadSettings) demo_classId) demo_classId
        payload_plain (l_serializeContext demo_loadSettings)) []
     = (completed Outcome_Success, ''Ada'', [])"
    using demo_run_plain by (simp add: demo_loadSettings_def demo_context_def)
  note by_type = load_succeeds_iff_outcome_ok_and_no_diagnostics
    [OF demo_prepare demo_LoadJson_with_age FindMember_envelope_ClassName
        FindMember_envelope_ClassData,
     where classId = demo_classId and classData = "\<lparr>m_name = ''Named''\<rparr>"
       and objectToLoad = "[]" and result = "completed Outcome_Success" and loaded = "''Ada''"
       and deserializeErrors = "''Skipped unrecognized field 'age' '' @ [CHR 0x0A]"]
  note any = load_succeeds_iff_outcome_ok_and_no_diagnostics
    [OF demo_prepare demo_LoadJson_plain FindMember_envelope_ClassName
        FindMember_envelope_ClassData,
     where anyId = demo_classId and others = "[]" and anyResult = "completed Outcome_Success"
       and anyLoaded = "''Ada''" and anyErrors = "[]"]
  have a: "fst (LoadObjectFromStreamByType demo [] demo_classId ByteContainerStream
             (stream_of (envelope ''Named'' payload_with_age)) None)
       = Failure (''Skipped unrecognized field 'age' '' @ [CHR 0x0A])"
    using by_type valid demo_FindClassData demo_run_with_age
    by (simp add: demo_context_of_settings azstricmp_refl)
  have b: "fst (LoadAnyObjectFromStream demo ByteContainerStream
             (stream_of (envelope ''Named'' payload_plain)) None)
       = Success ''Ada''"
    using any demo_FindClassId run_any ok
    by (simp add: demo_context_of_settings)
  show ?thesis
    using demo_prepare demo_LoadJson_with_age FindMember_envelope_ClassName
      FindMember_envelope_ClassData valid ok a b by simp
qed

section \<open>Loading: the class name of the document against the requested type\<close>

lemma by_type_mismatch:
  assumes "PrepareDeserializerSettings ext settings = Success loadSettings"
      and "fst (LoadJson ext stream s) = Success (JObject members)"
      and "ValidateJsonClassHeader (JObject members) = Success ()"
      and "FindMember members ClassNameTag = Some (JString className)"
      and "FindClassData (l_serializeContext loadSettings) classId = Some classData"
      and "azstricmp (m_name classData) className \<noteq> 0"
    shows "LoadObjectFromStreamByType ext objectToLoad classId stream s settings =
            (Failure (''Try to load class '' @ c_str (m_name classData)
                      @ '' from class '' @ c_str className @ '' data''),
             objectToLoad, snd (LoadJson ext stream s))"
  using assms
  by (cases "LoadJson ext stream s") (simp add: LoadObjectFromStreamByType_def)

text \<open>
  C6. When the header of the parsed document is valid and the requested type id is
  registered, \<open>LoadObjectFromStreamByType\<close> compares the registered name with the
  document's \<open>ClassName\<close>; when \<open>azstricmp\<close> finds them different it returns the failure
  "Try to load class R from class D data", with R the registered name and D the document's,
  and leaves the object as it was. The message is none of the three messages of header
  validation.
\<close>

theorem class_name_mismatch_is_reported:
  assumes "PrepareDeserializerSettings ext settings = Success loadSettings"
      and "fst (LoadJson ext stream s) = Success (JObject members)"
      and "ValidateJsonClassHeader (JObject members) = Success ()"
      and "FindMember members ClassNameTag = Some (JString className)"
      and "FindClassData (l_serializeContext loadSettings) classId = Some classData"
      and "azstricmp (m_name classData) className \<noteq> 0"
    shows "LoadObjectFromStreamByType ext objectToLoad classId stream s settings =
            (Failure (''Try to load class '' @ c_str (m_name classData)
                      @ '' from class '' @ c_str className @ '' data''),
             objectToLoad, snd (LoadJson ext stream s))
         \<and> ''Try to load class '' @ c_str (m_name classData)
               @ '' from class '' @ c_str className @ '' data''
             \<notin> {''Not a valid JsonSerialization file'', ''File should contain ClassName'',
                 ''ClassData should be an object''}"
  using by_type_mismatch [OF assms] by simp

lemma demo_LoadJson_other:
  "fst (LoadJson demo ByteContainerStream (stream_of (envelope ''Other'' payload_plain)))
   = Success (JObject (envelope_members ''Other'' payload_plain))"
  by (simp add: load_defs demo_defs tag_defs)

lemma demo_azstricmp_other: "azstricmp ''Named'' ''Other'' \<noteq> 0"
  by (simp add: ascii_tolower_def isupper_def)

theorem class_name_mismatch_is_reported_witness:
  "PrepareDeserializerSettings demo None = Success demo_loadSettings
   \<and> fst (LoadJson demo ByteContainerStream (stream_of (envelope ''Other'' payload_plain)))
       = Success (JObject (envelope_members ''Other'' payload_plain))
   \<and> ValidateJsonClassHeader (JObject (envelope_members ''Other'' payload_plain)) = Success ()
   \<and> FindMember (envelope_members ''Other'' payload_plain) ClassNameTag
       = Some (JString ''Other'')
   \<and> FindClassData (l_serializeContext demo_loadSettings) demo_classId
       = Some \<lparr>m_name = ''Named''\<rparr>
   \<and> azstricmp (m_name \<lparr>m_name = ''Named''\<rparr>) ''Other'' \<noteq> 0
   \<and> fst (LoadObjectFromStreamByType demo [] demo_classId ByteContainerStream
             (stream_of (envelope ''Other'' payload_plain)) None)
       = Failure ''Try to load class Named from class Other data''"
proof -
  have valid: "ValidateJsonClassHeader (JObject (envelope_members ''Other'' payload_plain))
      = Success ()"
    by (simp add: demo_validate_envelope payload_plain_def)
  have found: "FindClassData (l_serializeContext demo_loadSettings) demo_classId
       = Some \<lparr>m_name = ''Named''\<rparr>"
    by (simp add: demo_context_of_settings demo_FindClassData)
  have differ: "azstricmp (m_name \<lparr>m_name = ''Named''\<rparr>) ''Other'' \<noteq> 0"
    by (simp add: ascii_tolower_def isupper_def)
  have "fst (LoadObjectFromStreamByType demo [] demo_classId ByteContainerStream
             (stream_of (envelope ''Other'' payload_plain)) None)
       = Failure ''Try to load class Named from class Other data''"
    using class_name_mismatch_is_reported
      [OF demo_prepare demo_LoadJson_other valid FindMember_envelope_ClassName found differ,
       of "[]"]
    by (simp add: c_str_def)
  then show ?thesis
    using demo_prepare demo_LoadJson_other valid FindMember_envelope_ClassName found differ
    by simp
qed

section \<open>The reporting callback and the uuid message\<close>

lemma issueReportingCallback_answer:
  "fst (issueReportingCallback reporting message result target buffer)
   = fst (issueReportingCallback reporting message result target [])"
  by (simp add: issueReportingCallback_def Let_def split: option.splits)

lemma issueReportingCallback_suppressed:
  "WasLoadSuccess (GetOutcome result) \<or> message = uuid_message \<Longrightarrow>
   snd (issueReportingCallback reporting message result target buffer) = buffer"
  by (auto simp add: issueReportingCallback_def Let_def split: option.splits)

lemma issueReportingCallback_appends:
  "\<not> WasLoadSuccess (GetOutcome result) \<Longrightarrow> message \<noteq> uuid_message \<Longrightarrow>
   snd (issueReportingCallback reporting message result target buffer)
   = buffer @ message @ [CHR '' '', CHR 0x27] @ c_str (view_data target)
       @ [CHR 0x27, CHR '' '', CHR 0x0A]"
  by (auto simp add: issueReportingCallback_def Let_def split: option.splits)

lemma only_suppressed_reports_keep_buffer:
  "only_suppressed_reports reporting run \<Longrightarrow>
   snd (snd (run_mapping (issueReportingCallback reporting) run buffer)) = buffer"
proof (induction run arbitrary: buffer)
  case (Done result object)
  show ?case by simp
next
  case (Report message result target continue)
  obtain answer buffer' where cb:
    "issueReportingCallback reporting message result target buffer = (answer, buffer')"
    by (cases "issueReportingCallback reporting message result target buffer")
  have answer: "answer = fst (issueReportingCallback reporting message result target [])"
    using cb issueReportingCallback_answer [of reporting message result target buffer] by simp
  have kept: "buffer' = buffer"
    using cb Report.prems
      issueReportingCallback_suppressed [of result message reporting target buffer]
    by simp
  have rest: "only_suppressed_reports reporting (continue answer)"
    using Report.prems answer by simp
  show ?case
    using Report.IH [OF rangeI rest, of buffer] cb kept by simp
qed



lemma installed_callback_suppressed:
  "PrepareDeserializerSettings ext settings = Success loadSettings \<Longrightarrow>
   WasLoadSuccess (GetOutcome result) \<or> message = uuid_message \<Longrightarrow>
   snd (l_reporting loadSettings message result target buffer) = buffer"
  by (simp add: Prepare_reporting issueReportingCallback_suppressed)

lemma installed_callback_appends:
  "PrepareDeserializerSettings ext settings = Success loadSettings \<Longrightarrow>
   \<not> WasLoadSuccess (GetOutcome result) \<Longrightarrow> message \<noteq> uuid_message \<Longrightarrow>
   snd (l_reporting loadSettings message result target buffer)
   = buffer @ message @ [CHR '' '', CHR 0x27] @ c_str (view_data target)
       @ [CHR 0x27, CHR '' '', CHR 0x0A]"
  by (simp add: Prepare_reporting issueReportingCallback_appends)

lemma installed_callback_keeps_buffer:
  "PrepareDeserializerSettings ext settings = Success loadSettings \<Longrightarrow>
   only_suppressed_reports (caller_reporting settings) run \<Longrightarrow>
   snd (snd (run_mapping (l_reporting loadSettings) run [])) = []"
  by (simp add: Prepare_reporting only_suppressed_reports_keep_buffer)

text \<open>
  C4. Let a load have prepared its settings. The callback it has installed, with which
  both entry points run the mapper, never appends a report whose message is exactly
  "No part of the string could be interpreted as a uuid." to the diagnostics buffer,
  whatever the outcome of the report, and appends no report whose outcome is a
  load-success category; a report with any other message and an outcome outside the
  load-success categories is appended: the message, then the target as \<^verbatim>\<open>%s\<close> prints
  \<^verbatim>\<open>target.data()\<close>, in quotes. Hence a load in which every report outside the load-success
  categories carries that message, and whose final outcome is a load-success category,
  ends with an empty buffer and returns success; this holds for
  \<open>LoadObjectFromStreamByType\<close> and for \<open>LoadAnyObjectFromStream\<close>.
\<close>

theorem uuid_message_is_suppressed:
  assumes "PrepareDeserializerSettings ext settings = Success loadSettings"
    shows
     "snd (l_reporting loadSettings uuid_message result target buffer) = buffer
      \<and> (WasLoadSuccess (GetOutcome result) \<longrightarrow>
           snd (l_reporting loadSettings message result target buffer) = buffer)
      \<and> (message \<noteq> uuid_message \<and> \<not> WasLoadSuccess (GetOutcome result) \<longrightarrow>
           snd (l_reporting loadSettings message result target buffer)
           = buffer @ message @ [CHR '' '', CHR 0x27] @ c_str (view_data target)
               @ [CHR 0x27, CHR '' '', CHR 0x0A])
      \<and> (fst (LoadJson ext stream s) = Success (JObject members)
           \<and> ValidateJsonClassHeader (JObject members) = Success ()
           \<and> FindMember members ClassNameTag = Some (JString className)
           \<and> FindClassData (l_serializeContext loadSettings) classId = Some classData
           \<and> azstricmp (m_name classData) className = 0
           \<and> FindMember members ClassDataTag = Some payload
           \<and> only_suppressed_reports (caller_reporting settings)
                 (Load ext objectToLoad classId payload (l_serializeContext loadSettings))
           \<and> WasLoadSuccess (GetOutcome (fst (run_mapping (l_reporting loadSettings)
                 (Load ext objectToLoad classId payload (l_serializeContext loadSettings)) [])))
          \<longrightarrow> snd (snd (run_mapping (l_reporting loadSettings)
                 (Load ext objectToLoad classId payload (l_serializeContext loadSettings)) []))
                = []
              \<and> fst (LoadObjectFromStreamByType ext objectToLoad classId stream s settings)
                  = Success ())
      \<and> (fst (LoadJson ext stream s) = Success (JObject members)
           \<and> FindMember members ClassNameTag = Some (JString className)
           \<and> FindClassId (l_serializeContext loadSettings) (Crc32 ext (c_str className))
               = anyId # others
           \<and> FindMember members ClassDataTag = Some payload
           \<and> only_suppressed_reports (caller_reporting settings)
                 (Load ext (CreateAny (l_serializeContext loadSettings) anyId) anyId payload
                    (l_serializeContext loadSettings))
           \<and> WasLoadSuccess (GetOutcome (fst (run_mapping (l_reporting loadSettings)
                 (Load ext (CreateAny (l_serializeContext loadSettings) anyId) anyId payload
                    (l_serializeContext loadSettings)) [])))
          \<longrightarrow> IsSuccess (fst (LoadAnyObjectFromStream ext stream s settings)))"
proof (intro conjI impI)
  show "snd (l_reporting loadSettings uuid_message result target buffer) = buffer"
    using installed_callback_suppressed [OF assms] by simp
next
  assume "WasLoadSuccess (GetOutcome result)"
  then show "snd (l_reporting loadSettings message result target buffer) = buffer"
    using installed_callback_suppressed [OF assms] by simp
next
  assume "message \<noteq> uuid_message \<and> \<not> WasLoadSuccess (GetOutcome result)"
  then show "snd (l_reporting loadSettings message result target buffer)
           = buffer @ message @ [CHR '' '', CHR 0x27] @ c_str (view_data target)
               @ [CHR 0x27, CHR '' '', CHR 0x0A]"
    using installed_callback_appends [OF assms] by simp
next
  assume h: "fst (LoadJson ext stream s) = Success (JObject members)
           \<and> ValidateJsonClassHeader (JObject members) = Success ()
           \<and> FindMember members ClassNameTag = Some (JString className)
           \<and> FindClassData (l_serializeContext loadSettings) classId = Some classData
           \<and> azstricmp (m_name classData) className = 0
           \<and> FindMember members ClassDataTag = Some payload
           \<and> only_suppressed_reports (caller_reporting settings)
                 (Load ext objectToLoad classId payload (l_serializeContext loadSettings))
           \<and> WasLoadSuccess (GetOutcome (fst (run_mapping (l_reporting loadSettings)
                 (Load ext objectToLoad classId payload (l_serializeContext loadSettings)) [])))"
  define run where
    "run = run_mapping (l_reporting loadSettings)
              (Load ext objectToLoad classId payload (l_serializeContext loadSettings)) []"
  have empty: "snd (snd run) = []"
    unfolding run_def using h installed_callback_keeps_buffer [OF assms] by blast
  have triple: "run = (fst run, fst (snd run), [])"
    using empty by (cases run) auto
  have "LoadObjectFromStreamByType ext objectToLoad classId stream s settings =
            (if WasLoadSuccess (GetOutcome (fst run)) \<and> [] = ([] :: string)
             then Success () else Failure [], fst (snd run), snd (LoadJson ext stream s))"
    using h triple by_type_tail [OF assms, of stream s members className
        classId classData payload objectToLoad "fst run" "fst (snd run)" "[]"]
    unfolding run_def by blast
  then have "fst (LoadObjectFromStreamByType ext objectToLoad classId stream s settings)
               = Success ()"
    using h unfolding run_def by simp
  then show "snd (snd (run_mapping (l_reporting loadSettings)
              (Load ext objectToLoad classId payload (l_serializeContext loadSettings)) [])) = []"
    and "fst (LoadObjectFromStreamByType ext objectToLoad classId stream s settings)
               = Success ()"
    using empty unfolding run_def by simp_all
next
  assume h: "fst (LoadJson ext stream s) = Success (JObject members)
           \<and> FindMember members ClassNameTag = Some (JString className)
           \<and> FindClassId (l_serializeContext loadSettings) (Crc32 ext (c_str className))
               = anyId # others
           \<and> FindMember members ClassDataTag = Some payload
           \<and> only_suppressed_reports (caller_reporting settings)
                 (Load ext (CreateAny (l_serializeContext loadSettings) anyId) anyId payload
                    (l_serializeContext loadSettings))
           \<and> WasLoadSuccess (GetOutcome (fst (run_mapping (l_reporting loadSettings)
                 (Load ext (CreateAny (l_serializeContext loadSettings) anyId) anyId payload
                    (l_serializeContext loadSettings)) [])))"
  define run where
    "run = run_mapping (l_reporting loadSettings)
              (Load ext (CreateAny (l_serializeContext loadSettings) anyId) anyId payload
                 (l_serializeContext loadSettings)) []"
  have empty: "snd (snd run) = []"
    unfolding run_def using h installed_callback_keeps_buffer [OF assms] by blast
  have triple: "run = (fst run, fst (snd run), [])"
    using empty by (cases run) auto
  have "LoadAnyObjectFromStream ext stream s settings =
            (if WasLoadSuccess (GetOutcome (fst run)) \<and> [] = ([] :: string)
             then Success (fst (snd run)) else Failure [], snd (LoadJson ext stream s))"
    using h triple any_tail [OF assms, of stream s members className
        anyId others payload "fst run" "fst (snd run)" "[]"]
    unfolding run_def by blast
  then show "IsSuccess (fst (LoadAnyObjectFromStream ext stream s settings))"
    using h unfolding run_def by simp
qed

lemma demo_LoadJson_with_id:
  "fst (LoadJson demo ByteContainerStream (stream_of (envelope ''Named'' payload_with_id)))
   = Success (JObject (envelope_members ''Named'' payload_with_id))"
  by (simp add: load_defs demo_defs tag_defs)

lemma demo_run_with_id:
  "run_mapping (l_reporting demo_loadSettings)
     (Load demo [] demo_classId payload_with_id (l_serializeContext demo_loadSettings)) []
   = (completed Outcome_Success, ''Ada'', [])"
  by (simp add: load_defs demo_defs)

theorem uuid_message_is_suppressed_witness:
  "PrepareDeserializerSettings demo None = Success demo_loadSettings
   \<and> only_suppressed_reports (caller_reporting None)
       (Load demo [] demo_classId payload_with_id (l_serializeContext demo_loadSettings))
   \<and> \<not> WasLoadSuccess (GetOutcome (completed Outcome_Unsupported))
   \<and> snd (l_reporting demo_loadSettings uuid_message (completed Outcome_Unsupported)
          (view_of ''id'') ''earlier'') = ''earlier''
   \<and> ''Expected a string'' \<noteq> uuid_message
   \<and> snd (l_reporting demo_loadSettings ''Expected a string'' (completed Outcome_Unsupported)
          (StringView ''abcdef'' 3) []) = ''Expected a string 'abcdef' '' @ [CHR 0x0A]
   \<and> fst (LoadObjectFromStreamByType demo [] demo_classId ByteContainerStream
            (stream_of (envelope ''Named'' payload_with_id)) None) = Success ()"
proof -
  have quiet: "only_suppressed_reports (caller_reporting None)
     (Load demo [] demo_classId payload_with_id (l_serializeContext demo_loadSettings))"
    by (simp add: load_defs demo_defs caller_reporting_def)
  have unsupported: "\<not> WasLoadSuccess (GetOutcome (completed Outcome_Unsupported))"
    by (simp add: WasLoadSuccess_def completed_def)
  have other: "''Expected a string'' \<noteq> uuid_message"
    by (simp add: uuid_message_def)
  have valid: "ValidateJsonClassHeader (JObject (envelope_members ''Named'' payload_with_id))
       = Success ()"
    by (simp add: demo_validate_envelope payload_with_id_def)
  have found: "FindClassData (l_serializeContext demo_loadSettings) demo_classId
       = Some \<lparr>m_name = ''Named''\<rparr>"
    by (simp add: demo_context_of_settings demo_FindClassData)
  have same: "azstricmp (m_name \<lparr>m_name = ''Named''\<rparr>) ''Named'' = 0"
    by (simp add: azstricmp_refl)
  have final: "WasLoadSuccess (GetOutcome (fst (run_mapping (l_reporting demo_loadSettings)
     (Load demo [] demo_classId payload_with_id (l_serializeContext demo_loadSettings)) [])))"
    by (simp add: demo_run_with_id WasLoadSuccess_def completed_def)
  note inst = uuid_message_is_suppressed
    [OF demo_prepare, where result = "completed Outcome_Unsupported"
       and message = "''Expected a string''" and stream = ByteContainerStream
       and s = "stream_of (envelope ''Named'' payload_with_id)"
       and members = "envelope_members ''Named'' payload_with_id"
       and className = "''Named''" and classId = demo_classId
       and classData = "\<lparr>m_name = ''Named''\<rparr>" and payload = payload_with_id
       and objectToLoad = "[]" and anyId = demo_classId and others = "[]"]
  have a: "snd (l_reporting demo_loadSettings uuid_message (completed Outcome_Unsupported)
          (view_of ''id'') ''earlier'') = ''earlier''"
    using inst [where target = "view_of ''id''" and buffer = "''earlier''"] by blast
  have b: "snd (l_reporting demo_loadSettings ''Expected a string''
          (completed Outcome_Unsupported) (StringView ''abcdef'' 3) [])
      = ''Expected a string 'abcdef' '' @ [CHR 0x0A]"
    using inst [where target = "StringView ''abcdef'' 3" and buffer = "[]"] other unsupported
    by (simp add: c_str_def)
  have c: "fst (LoadObjectFromStreamByType demo [] demo_classId ByteContainerStream
            (stream_of (envelope ''Named'' payload_with_id)) None) = Success ()"
    using inst [where target = "view_of []" and buffer = "[]"] demo_LoadJson_with_id valid
      FindMember_envelope_ClassName [of "''Named''" payload_with_id] found same
      FindMember_envelope_ClassData [of "''Named''" payload_with_id] quiet final
    by blast
  show ?thesis
    using demo_prepare quiet unsupported other a b c by blast
qed

section \<open>The Version member\<close>

lemma FindMember_without_version:
  "name \<noteq> VersionTag \<Longrightarrow> FindMember (without_version ms) name = FindMember ms name"
  by (induction ms) (auto simp add: without_version_def)

lemma Validate_without_version:
  "ValidateJsonClassHeader (JObject (without_version ms)) = ValidateJsonClassHeader (JObject ms)"
  by (simp add: ValidateJsonClassHeader_def FindMember_without_version tag_defs)

lemma by_type_depends_on:
  assumes "fst (LoadJson ext stream1 s1) = Success (JObject members1)"
      and "fst (LoadJson ext stream2 s2) = Success (JObject members2)"
      and "ValidateJsonClassHeader (JObject members1) = ValidateJsonClassHeader (JObject members2)"
      and "FindMember members1 ClassNameTag = FindMember members2 ClassNameTag"
      and "FindMember members1 ClassDataTag = FindMember members2 ClassDataTag"
    shows "fst (LoadObjectFromStreamByType ext objectToLoad classId stream1 s1 settings)
           = fst (LoadObjectFromStreamByType ext objectToLoad classId stream2 s2 settings)
         \<and> fst (snd (LoadObjectFromStreamByType ext objectToLoad classId stream1 s1 settings))
           = fst (snd (LoadObjectFromStreamByType ext objectToLoad classId stream2 s2 settings))"
  using assms
  by (cases "LoadJson ext stream1 s1"; cases "LoadJson ext stream2 s2")
     (simp add: LoadObjectFromStreamByType_def
        split: Outcome.splits option.splits json.splits prod.splits)

lemma any_depends_on:
  assumes "fst (LoadJson ext stream1 s1) = Success (JObject members1)"
      and "fst (LoadJson ext stream2 s2) = Success (JObject members2)"
      and "ValidateJsonClassHeader (JObject members1) = ValidateJsonClassHeader (JObject members2)"
      and "FindMember members1 ClassNameTag = FindMember members2 ClassNameTag"
      and "FindMember members1 ClassDataTag = FindMember members2 ClassDataTag"
    shows "fst (LoadAnyObjectFromStream ext stream1 s1 settings)
           = fst (LoadAnyObjectFromStream ext stream2 s2 settings)"
  using assms
  by (cases "LoadJson ext stream1 s1"; cases "LoadJson ext stream2 s2")
     (simp add: LoadAnyObjectFromStream_def Let_def
        split: Outcome.splits option.splits json.splits prod.splits list.splits)


text \<open>
  C10. Neither header validation nor a load reads the \<open>Version\<close> member. For two object
  documents with the same members apart from those named \<open>Version\<close> (present or absent,
  of any type and value), \<open>ValidateJsonClassHeader\<close> returns the same result, and loads
  that parse the one and the other return the same result and leave the same object, for
  \<open>LoadObjectFromStreamByType\<close> and for \<open>LoadAnyObjectFromStream\<close>. Putting a \<open>Version\<close>
  member of any value in front of a document leaves the result of header validation what
  it is for the document without any \<open>Version\<close> member.
\<close>

theorem Version_member_is_never_read:
  assumes "without_version members1 = without_version members2"
    shows "ValidateJsonClassHeader (JObject members1) = ValidateJsonClassHeader (JObject members2)
         \<and> ValidateJsonClassHeader (JObject ((VersionTag, anyValue) # members1))
             = ValidateJsonClassHeader (JObject (without_version members1))
         \<and> (fst (LoadJson ext stream1 s1) = Success (JObject members1)
              \<and> fst (LoadJson ext stream2 s2) = Success (JObject members2) \<longrightarrow>
              fst (LoadObjectFromStreamByType ext objectToLoad classId stream1 s1 settings)
              = fst (LoadObjectFromStreamByType ext objectToLoad classId stream2 s2 settings)
              \<and> fst (snd (LoadObjectFromStreamByType ext objectToLoad classId stream1 s1 settings))
                = fst (snd (LoadObjectFromStreamByType ext objectToLoad classId stream2 s2
                              settings))
              \<and> fst (LoadAnyObjectFromStream ext stream1 s1 settings)
                = fst (LoadAnyObjectFromStream ext stream2 s2 settings))"
proof -
  have valid: "ValidateJsonClassHeader (JObject members1)
      = ValidateJsonClassHeader (JObject members2)"
    using assms Validate_without_version [of members1] Validate_without_version [of members2]
    by simp
  have name: "FindMember members1 ClassNameTag = FindMember members2 ClassNameTag"
    using assms FindMember_without_version [of ClassNameTag members1]
      FindMember_without_version [of ClassNameTag members2]
    by (simp add: tag_defs)
  have data: "FindMember members1 ClassDataTag = FindMember members2 ClassDataTag"
    using assms FindMember_without_version [of ClassDataTag members1]
      FindMember_without_version [of ClassDataTag members2]
    by (simp add: tag_defs)
  have added: "ValidateJsonClassHeader (JObject ((VersionTag, anyValue) # members1))
             = ValidateJsonClassHeader (JObject (without_version members1))"
    using Validate_without_version [of "(VersionTag, anyValue) # members1"]
    by (simp add: without_version_def)
  note by_type = by_type_depends_on
    [OF _ _ valid name data, where ext = ext and ?stream1.0 = stream1 and ?s1.0 = s1
       and ?stream2.0 = stream2 and ?s2.0 = s2 and objectToLoad = objectToLoad
       and classId = classId and settings = settings]
  note any = any_depends_on
    [OF _ _ valid name data, where ext = ext and ?stream1.0 = stream1 and ?s1.0 = s1
       and ?stream2.0 = stream2 and ?s2.0 = s2 and settings = settings]
  show ?thesis
    using valid added by_type any by simp
qed

lemma demo_LoadJson_without_version:
  "fst (LoadJson demo ByteContainerStream (stream_of (JObject members_without_version)))
   = Success (JObject members_without_version)"
  by (simp add: load_defs demo_defs tag_defs)

theorem Version_member_is_never_read_witness:
  "without_version members_without_version
     = without_version (envelope_members ''Named'' payload_plain)
   \<and> FindMember members_without_version VersionTag = None
   \<and> FindMember (envelope_members ''Named'' payload_plain) VersionTag = Some (JInt 1)
   \<and> ValidateJsonClassHeader (JObject members_without_version) = Success ()
   \<and> ValidateJsonClassHeader (JObject ((VersionTag, JString ''one'') # members_without_version))
       = Success ()
   \<and> fst (LoadObjectFromStreamByType demo [] demo_classId ByteContainerStream
            (stream_of (JObject members_without_version)) None)
     = fst (LoadObjectFromStreamByType demo [] demo_classId ByteContainerStream
            (stream_of (envelope ''Named'' payload_plain)) None)"
proof -
  have same: "without_version members_without_version
     = without_version (envelope_members ''Named'' payload_plain)"
    by (simp add: without_version_def members_without_version_def envelope_members_def
          tag_defs)
  have absent: "FindMember members_without_version VersionTag = None"
    by (simp add: members_without_version_def tag_defs)
  have present: "FindMember (envelope_members ''Named'' payload_plain) VersionTag
      = Some (JInt 1)"
    by (simp add: envelope_members_def tag_defs)
  have valid: "ValidateJsonClassHeader (JObject (envelope_members ''Named'' payload_plain))
      = Success ()"
    by (simp add: demo_validate_envelope payload_plain_def)
  have unchanged: "without_version members_without_version = members_without_version"
    by (simp add: without_version_def members_without_version_def tag_defs)
  note inst = Version_member_is_never_read
    [OF same, where ext = demo and ?stream1.0 = ByteContainerStream
       and ?stream2.0 = ByteContainerStream
       and ?s1.0 = "stream_of (JObject members_without_version)"
       and ?s2.0 = "stream_of (envelope ''Named'' payload_plain)"
       and anyValue = "JString ''one''" and objectToLoad = "[]" and classId = demo_classId
       and settings = None]
  have a: "ValidateJsonClassHeader (JObject members_without_version) = Success ()"
    using inst valid by simp
  have b: "ValidateJsonClassHeader
       (JObject ((VersionTag, JString ''one'') # members_without_version)) = Success ()"
    using inst a unchanged by metis
  have c: "fst (LoadObjectFromStreamByType demo [] demo_classId ByteContainerStream
            (stream_of (JObject members_without_version)) None)
     = fst (LoadObjectFromStreamByType demo [] demo_classId ByteContainerStream
            (stream_of (envelope ''Named'' payload_plain)) None)"
    using inst demo_LoadJson_without_version demo_LoadJson_plain by blast
  show ?thesis
    using same absent present a b c by blast
qed

section \<open>Saving to a file\<close>

lemma Save_not_writable:
  "\<not> CanWrite stream s \<Longrightarrow>
   SaveObjectToStreamByType ext objectPtr classId stream s defaultObjectPtr settings
   = (Failure ''The GenericStream can't be written to'', s)"
  by (simp add: SaveObjectToStreamByType_def)

lemma Save_no_context:
  "CanWrite stream s \<Longrightarrow> save_context ext settings = None \<Longrightarrow>
   SaveObjectToStreamByType ext objectPtr classId stream s defaultObjectPtr settings
   = (Failure ''Need SerializeContext for saving'', s)"
  by (simp add: SaveObjectToStreamByType_def save_context_def Let_def)

lemma Save_store_halted:
  "CanWrite stream s \<Longrightarrow> save_context ext settings = Some context \<Longrightarrow>
   GetProcessing (fst (Store ext objectPtr defaultObjectPtr classId
                         (save_settings settings context))) \<noteq> Completed \<Longrightarrow>
   SaveObjectToStreamByType ext objectPtr classId stream s defaultObjectPtr settings
   = (Failure (ToString ext (fst (Store ext objectPtr defaultObjectPtr classId
                                    (save_settings settings context)))), s)"
  by (cases "Store ext objectPtr defaultObjectPtr classId (save_settings settings context)")
     (simp add: SaveObjectToStreamByType_def save_context_def save_settings_def Let_def)

lemma Save_unregistered:
  "CanWrite stream s \<Longrightarrow> save_context ext settings = Some context \<Longrightarrow>
   GetProcessing (fst (Store ext objectPtr defaultObjectPtr classId
                         (save_settings settings context))) = Completed \<Longrightarrow>
   FindClassData context classId = None \<Longrightarrow>
   SaveObjectToStreamByType ext objectPtr classId stream s defaultObjectPtr settings
   = (Fault NullClassData, s)"
  by (cases "Store ext objectPtr defaultObjectPtr classId (save_settings settings context)")
     (simp add: SaveObjectToStreamByType_def save_context_def save_settings_def Let_def)

lemma Save_written:
  "CanWrite stream s \<Longrightarrow> save_context ext settings = Some context \<Longrightarrow>
   GetProcessing (fst (Store ext objectPtr defaultObjectPtr classId
                         (save_settings settings context))) = Completed \<Longrightarrow>
   FindClassData context classId = Some classData \<Longrightarrow>
   document = saved_document classData
                (snd (Store ext objectPtr defaultObjectPtr classId
                        (save_settings settings context))) \<Longrightarrow>
   SaveObjectToStreamByType ext objectPtr classId stream s defaultObjectPtr settings
   = (if snd (Accept ext document) then Success ()
      else Failure (''Unable to write class '' @ c_str (Uuid_ToString ext classId)
                    @ '' with json serialization format'' @ [CHR 0x27]),
      snd (Write stream (fst (Accept ext document)) s))"
  by (cases "Store ext objectPtr defaultObjectPtr classId (save_settings settings context)";
      cases "Accept ext document";
      cases "Write stream (fst (Accept ext document)) s")
     (simp add: SaveObjectToStreamByType_def save_context_def save_settings_def Let_def
        saved_document_def)

lemma ByteContainerStream_CanWrite: "CanWrite ByteContainerStream s"
  by (simp add: ByteContainerStream_def)

text \<open>
  C9. \<open>SaveObjectToFileByType\<close> serializes into a byte buffer in memory and touches the
  file system only when that step has succeeded. Whenever the serialization step fails
  (the stream cannot be written to, there is no serialize context, the mapper's processing
  is not \<open>Completed\<close>, or the writer does not finish), the call returns that very failure
  and the file system is what it was: the file is neither created nor modified. When the
  step succeeds, the file is opened, and the buffer is written to it if the open
  succeeded.
\<close>

theorem failed_save_leaves_the_file_alone:
  "(fst (SaveObjectToStreamByType ext classPtr classId ByteContainerStream ([], 0)
           defaultClassPtr settings) = Failure error \<longrightarrow>
      SaveObjectToFileByType ext files classPtr classId filePath fs defaultClassPtr settings
      = (Failure error, fs))
   \<and> (\<not> CanWrite stream s \<longrightarrow>
        SaveObjectToStreamByType ext classPtr classId stream s defaultClassPtr settings
        = (Failure ''The GenericStream can't be written to'', s))
   \<and> (save_context ext settings = None \<longrightarrow>
        SaveObjectToFileByType ext files classPtr classId filePath fs defaultClassPtr settings
        = (Failure ''Need SerializeContext for saving'', fs))
   \<and> (save_context ext settings = Some serializeContext
        \<and> GetProcessing (fst (Store ext classPtr defaultClassPtr classId
                                 (save_settings settings serializeContext))) \<noteq> Completed \<longrightarrow>
        SaveObjectToFileByType ext files classPtr classId filePath fs defaultClassPtr settings
        = (Failure (ToString ext (fst (Store ext classPtr defaultClassPtr classId
                                          (save_settings settings serializeContext)))), fs))
   \<and> (save_context ext settings = Some serializeContext
        \<and> GetProcessing (fst (Store ext classPtr defaultClassPtr classId
                                 (save_settings settings serializeContext))) = Completed
        \<and> FindClassData serializeContext classId = Some classData
        \<and> \<not> snd (Accept ext (saved_document classData
                      (snd (Store ext classPtr defaultClassPtr classId
                              (save_settings settings serializeContext))))) \<longrightarrow>
        SaveObjectToFileByType ext files classPtr classId filePath fs defaultClassPtr settings
        = (Failure (''Unable to write class '' @ c_str (Uuid_ToString ext classId)
                    @ '' with json serialization format'' @ [CHR 0x27]), fs))
   \<and> (fst (SaveObjectToStreamByType ext classPtr classId ByteContainerStream ([], 0)
             defaultClassPtr settings) = Success () \<longrightarrow>
        SaveObjectToFileByType ext files classPtr classId filePath fs defaultClassPtr settings
        = (if fst (OpenForWrite files (c_str filePath) fs)
           then (Success (),
                 WriteOpened files (c_str filePath)
                   (fst (snd (SaveObjectToStreamByType ext classPtr classId ByteContainerStream
                                ([], 0) defaultClassPtr settings)))
                   (snd (OpenForWrite files (c_str filePath) fs)))
           else (Failure (''Error opening file '' @ [CHR 0x27] @ c_str filePath @ [CHR 0x27]
                          @ '' for writing''),
                 snd (OpenForWrite files (c_str filePath) fs))))"
proof -
  let ?save = "SaveObjectToStreamByType ext classPtr classId ByteContainerStream ([], 0)
           defaultClassPtr settings"
  let ?file = "SaveObjectToFileByType ext files classPtr classId filePath fs defaultClassPtr
           settings"
  have failed: "fst ?save = Failure e \<Longrightarrow> ?file = (Failure e, fs)" for e
    by (cases ?save) (simp add: SaveObjectToFileByType_def)
  have succeeded: "fst ?save = Success () \<Longrightarrow>
        ?file = (if fst (OpenForWrite files (c_str filePath) fs)
           then (Success (),
                 WriteOpened files (c_str filePath) (fst (snd ?save))
                   (snd (OpenForWrite files (c_str filePath) fs)))
           else (Failure (''Error opening file '' @ [CHR 0x27] @ c_str filePath @ [CHR 0x27]
                          @ '' for writing''),
                 snd (OpenForWrite files (c_str filePath) fs)))"
    by (cases ?save; cases "OpenForWrite files (c_str filePath) fs")
       (simp add: SaveObjectToFileByType_def)
  have no_context: "save_context ext settings = None \<Longrightarrow>
        ?file = (Failure ''Need SerializeContext for saving'', fs)"
    using failed Save_no_context [OF ByteContainerStream_CanWrite] by (metis fst_conv)
  have halted: "save_context ext settings = Some serializeContext \<Longrightarrow>
        GetProcessing (fst (Store ext classPtr defaultClassPtr classId
                                 (save_settings settings serializeContext))) \<noteq> Completed \<Longrightarrow>
        ?file = (Failure (ToString ext (fst (Store ext classPtr defaultClassPtr classId
                                          (save_settings settings serializeContext)))), fs)"
    using failed Save_store_halted [OF ByteContainerStream_CanWrite] by (metis fst_conv)
  have unwritten: "save_context ext settings = Some serializeContext \<Longrightarrow>
        GetProcessing (fst (Store ext classPtr defaultClassPtr classId
                                 (save_settings settings serializeContext))) = Completed \<Longrightarrow>
        FindClassData serializeContext classId = Some classData \<Longrightarrow>
        \<not> snd (Accept ext (saved_document classData
                      (snd (Store ext classPtr defaultClassPtr classId
                              (save_settings settings serializeContext))))) \<Longrightarrow>
        ?file = (Failure (''Unable to write class '' @ c_str (Uuid_ToString ext classId)
                    @ '' with json serialization format'' @ [CHR 0x27]), fs)"
    using failed
      Save_written [of ByteContainerStream "([], 0)" ext settings serializeContext classPtr
        defaultClassPtr classId classData
        "saved_document classData (snd (Store ext classPtr defaultClassPtr classId
           (save_settings settings serializeContext)))"]
    by (simp add: ByteContainerStream_CanWrite)
  show ?thesis
    apply (intro conjI impI)
    subgoal using failed by simp
    subgoal by (simp add: Save_not_writable)
    subgoal using no_context by simp
    subgoal using halted by simp
    subgoal using unwritten by simp
    subgoal using succeeded by simp
    done
qed

theorem failed_save_leaves_the_file_alone_witness:
  "save_context (demo\<lparr>GetSerializeContext := None\<rparr>) None = None
   \<and> fst (SaveObjectToStreamByType (demo\<lparr>GetSerializeContext := None\<rparr>) ''Ada''
            demo_classId ByteContainerStream ([], 0) None None)
       = Failure ''Need SerializeContext for saving''
   \<and> SaveObjectToFileByType (demo\<lparr>GetSerializeContext := None\<rparr>) demo_files ''Ada''
         demo_classId ''ada.json'' Map.empty None None
       = (Failure ''Need SerializeContext for saving'', Map.empty)
   \<and> fst (SaveObjectToStreamByType demo ''Ada'' demo_classId ByteContainerStream ([], 0)
            None None) = Success ()
   \<and> SaveObjectToFileByType demo demo_files ''Ada'' demo_classId ''ada.json'' Map.empty
         None None
       = (Success (), [''ada.json'' \<mapsto> demo_write (envelope ''Named'' payload_plain)])"
proof -
  have none: "save_context (demo\<lparr>GetSerializeContext := None\<rparr>) None = None"
    by (simp add: save_context_def default_settings_def)
  have failed: "fst (SaveObjectToStreamByType (demo\<lparr>GetSerializeContext := None\<rparr>) ''Ada''
            demo_classId ByteContainerStream ([], 0) None None)
       = Failure ''Need SerializeContext for saving''"
    by (simp add: Save_no_context [OF ByteContainerStream_CanWrite none])
  have saved: "fst (SaveObjectToStreamByType demo ''Ada'' demo_classId ByteContainerStream
            ([], 0) None None) = Success ()"
    by (simp add: SaveObjectToStreamByType_def default_settings_def demo_defs tag_defs
          c_str_def)
  have buffer: "fst (snd (SaveObjectToStreamByType demo ''Ada'' demo_classId
            ByteContainerStream ([], 0) None None))
      = demo_write (envelope ''Named'' payload_plain)"
    by (simp add: SaveObjectToStreamByType_def default_settings_def demo_defs tag_defs
          c_str_def)
  note inst1 = failed_save_leaves_the_file_alone
    [where ext = "demo\<lparr>GetSerializeContext := None\<rparr>" and classPtr = "''Ada''"
       and classId = demo_classId and defaultClassPtr = None and settings = None
       and files = demo_files and filePath = "''ada.json''" and fs = Map.empty
       and error = "''Need SerializeContext for saving''"]
  note inst2 = failed_save_leaves_the_file_alone
    [where ext = demo and classPtr = "''Ada''"
       and classId = demo_classId and defaultClassPtr = None and settings = None
       and files = demo_files and filePath = "''ada.json''" and fs = Map.empty]
  have a: "SaveObjectToFileByType (demo\<lparr>GetSerializeContext := None\<rparr>) demo_files ''Ada''
         demo_classId ''ada.json'' Map.empty None None
       = (Failure ''Need SerializeContext for saving'', Map.empty)"
    using inst1 [THEN conjunct1] failed by simp
  have b: "SaveObjectToFileByType demo demo_files ''Ada'' demo_classId ''ada.json'' Map.empty
         None None
       = (Success (), [''ada.json'' \<mapsto> demo_write (envelope ''Named'' payload_plain)])"
    using inst2 [THEN conjunct2, THEN conjunct2, THEN conjunct2, THEN conjunct2,
        THEN conjunct2] saved buffer
    by (simp add: demo_files_def c_str_def)
  show ?thesis
    using none failed a b saved by simp
qed

section \<open>Header validation in the two entry points\<close>

text \<open>
  C5. A document whose header fails validation ends \<open>LoadObjectFromStreamByType\<close> with
  the message of the failing check, and it should end \<open>LoadAnyObjectFromStream\<close> the same
  way. \<open>LoadAnyObjectFromStream\<close> does compute the validation result, and then tests the
  parse result in its place: on the document
  \<^verbatim>\<open>{"ClassName":"Named","ClassData":{"name":"Ada"}}\<close>, which has no \<open>Type\<close> member and
  fails validation with "Not a valid JsonSerialization file", it goes on to resolve the
  class name, creates and populates an object, and returns success.
\<close>

theorem LoadAnyObjectFromStream_ignores_header_validation:
  "ValidateJsonClassHeader (JObject members_without_type)
     = Failure ''Not a valid JsonSerialization file''
   \<and> fst (LoadObjectFromStreamByType demo [] demo_classId ByteContainerStream
            (stream_of (JObject members_without_type)) None)
       = Failure ''Not a valid JsonSerialization file''
   \<and> fst (LoadAnyObjectFromStream demo ByteContainerStream
            (stream_of (JObject members_without_type)) None)
       = Success ''Ada''"
proof -
  have a: "ValidateJsonClassHeader (JObject members_without_type)
     = Failure ''Not a valid JsonSerialization file''"
    by (simp add: ValidateJsonClassHeader_def members_without_type_def tag_defs)
  have b: "fst (LoadObjectFromStreamByType demo [] demo_classId ByteContainerStream
            (stream_of (JObject members_without_type)) None)
       = Failure ''Not a valid JsonSerialization file''"
    by (simp add: load_defs demo_defs tag_defs)
  have c: "fst (LoadAnyObjectFromStream demo ByteContainerStream
            (stream_of (JObject members_without_type)) None)
       = Success ''Ada''"
    by (simp add: load_defs demo_defs tag_defs)
  show ?thesis using a b c by simp
qed

theorem LoadAnyObjectFromStream_ignores_header_validation_witness:
  "\<not> IsSuccess (ValidateJsonClassHeader (JObject members_without_type))
   \<and> \<not> IsSuccess (fst (LoadObjectFromStreamByType demo [] demo_classId ByteContainerStream
                      (stream_of (JObject members_without_type)) None))
   \<and> IsSuccess (fst (LoadAnyObjectFromStream demo ByteContainerStream
                      (stream_of (JObject members_without_type)) None))"
  using LoadAnyObjectFromStream_ignores_header_validation by simp

section \<open>A type id that is not registered\<close>

text \<open>
  C8. A requested type id that the serialize context does not know should end the call
  with a failure. In \<open>LoadObjectFromStreamByType\<close> the result of \<open>FindClassData\<close> is used
  without a test: for the unregistered id 2 and a valid document the call reaches
  \<^verbatim>\<open>classData->m_name\<close> with a null \<open>classData\<close> and returns nothing. (The save path
  reads \<open>m_name\<close> the same way once the mapper's \<open>Store\<close> has completed: lemma
  \<open>Save_unregistered\<close>.)
\<close>

theorem unregistered_type_id_is_dereferenced:
  "FindClassData demo_context 2 = None
   \<and> ValidateJsonClassHeader (envelope ''Named'' payload_plain) = Success ()
   \<and> fst (LoadObjectFromStreamByType demo [] 2 ByteContainerStream
            (stream_of (envelope ''Named'' payload_plain)) None)
       = Fault NullClassData"
proof -
  have a: "FindClassData demo_context 2 = None"
    by (simp add: demo_defs)
  have b: "ValidateJsonClassHeader (envelope ''Named'' payload_plain) = Success ()"
    by (simp add: envelope_def demo_validate_envelope payload_plain_def)
  have c: "fst (LoadObjectFromStreamByType demo [] 2 ByteContainerStream
            (stream_of (envelope ''Named'' payload_plain)) None)
       = Fault NullClassData"
    by (simp add: load_defs demo_defs tag_defs ascii_tolower_def isupper_def)
  show ?thesis using a b c by simp
qed

theorem unregistered_type_id_is_dereferenced_witness:
  "FindClassData demo_context 2 = None
   \<and> (\<forall>error. fst (LoadObjectFromStreamByType demo [] 2 ByteContainerStream
                      (stream_of (envelope ''Named'' payload_plain)) None)
                \<noteq> Failure error)"
  using unregistered_type_id_is_dereferenced by simp

section \<open>Saving and loading back\<close>







section \<open>The parser reads back what the writer wrote\<close>










lemma read_string_written:
  "read_string (concat (map escape s) @ CHR 0x22 # rest) = Inr (s, rest)"
  by (induction s) (auto simp add: escape_def)









lemma read_key_written:
  "read_string (concat (map escape k) @ CHR 0x22 # CHR '':'' # rest)
   = Inr (k, CHR '':'' # rest)"
  by (rule read_string_written)




lemma double_free_JObject: "double_free (JObject ms) = (\<forall>p \<in> set ms. double_free (snd p))"
  by (simp add: list_all_iff)

lemma double_free_JArray: "double_free (JArray xs) = (\<forall>x \<in> set xs. double_free x)"
  by (simp add: list_all_iff)









section \<open>The object mapper loads back what it stored\<close>















lemma length_write_string: "length s + 2 \<le> length (write_string s)"
proof -
  have "length s \<le> length (concat (map escape s))"
    by (induction s) (simp_all add: escape_def)
  thus ?thesis
    by (simp add: write_string_def)
qed

lemma length_spec_write_named:
  "MaxFileSize < length (spec_write (saved_document \<lparr>m_name = ''Named''\<rparr>
                                      (JObject (encode_fields [(''name'', StringField long_name)]))))"
  using length_write_string [of long_name]
  by (simp add: saved_document_def encode_fields_def MaxFileSize_def length_long_name)

lemma Save_spec_collaborators:
  assumes "map_of types classId = Some (name, initial)"
  shows "SaveObjectToStreamByType (spec_collaborators types) object classId ByteContainerStream
           ([], 0) None (Some \<lparr>m_serializeContext = None, m_reporting = reporting\<rparr>)
         = (Success (),
            (spec_write (saved_document \<lparr>m_name = name\<rparr> (JObject (encode_fields object))),
             length (spec_write
                       (saved_document \<lparr>m_name = name\<rparr> (JObject (encode_fields object))))))"
proof -
  let ?ext = "spec_collaborators types"
  let ?settings = "Some \<lparr>m_serializeContext = None, m_reporting = reporting\<rparr>"
  have ctx: "save_context ?ext ?settings = Some (spec_context types)"
    by (simp add: save_context_def spec_collaborators_def)
  have found: "FindClassData (spec_context types) classId = Some \<lparr>m_name = name\<rparr>"
    by (simp add: spec_context_def assms)
  have store: "Store ?ext object None classId (save_settings ?settings (spec_context types))
      = (completed Outcome_Success, JObject (encode_fields object))"
    by (simp add: spec_collaborators_def spec_Store_def)
  have proc: "GetProcessing (fst (Store ?ext object None classId
      (save_settings ?settings (spec_context types)))) = Completed"
    unfolding store by (simp add: completed_def)
  have accept: "Accept ?ext document = (spec_write document, True)" for document
    by (simp add: spec_collaborators_def)
  show ?thesis
    using Save_written [OF ByteContainerStream_CanWrite ctx proc found refl, of "([], 0)"]
    unfolding store
    by (simp add: accept ByteContainerStream_def)
qed



text \<open>
  The bound is needed for these collaborators too: an instance of \<open>Named\<close> whose name is one
  mebibyte long is saved with success, and loading the saved bytes back fails.
\<close>

lemma saved_text_above_MaxFileSize_is_refused:
  "registered named_types 1 [(''name'', StringField [])]
   \<and> instance_of [(''name'', StringField [])] [(''name'', StringField long_name)]
   \<and> fst (SaveObjectToStreamByType (spec_collaborators named_types)
            [(''name'', StringField long_name)] 1 ByteContainerStream ([], 0) None
            (Some \<lparr>m_serializeContext = None, m_reporting = None\<rparr>)) = Success ()
   \<and> fst (LoadObjectFromStreamByType (spec_collaborators named_types)
            [(''name'', StringField [])] 1 ByteContainerStream
            (fst (snd (SaveObjectToStreamByType (spec_collaborators named_types)
                         [(''name'', StringField long_name)] 1 ByteContainerStream ([], 0) None
                         (Some \<lparr>m_serializeContext = None, m_reporting = None\<rparr>))), 0)
            (Some \<lparr>m_serializeContext = None, m_reporting = None\<rparr>))
     = Failure ''Data is too large.''"
proof -
  let ?ext = "spec_collaborators named_types"
  let ?object = "[(''name'', StringField long_name)]"
  let ?settings = "Some \<lparr>m_serializeContext = None, m_reporting = None\<rparr>"
  let ?bytes = "spec_write (saved_document \<lparr>m_name = ''Named''\<rparr>
                              (JObject (encode_fields ?object)))"
  have registered: "registered named_types 1 [(''name'', StringField [])]"
    by (simp add: registered_def named_types_def)
  have object: "instance_of [(''name'', StringField [])] ?object"
    by (simp add: instance_of_def)
  have save: "SaveObjectToStreamByType ?ext ?object 1 ByteContainerStream ([], 0) None ?settings
      = (Success (), ?bytes, length ?bytes)"
    by (rule Save_spec_collaborators) (simp add: named_types_def)
  have prepare: "PrepareDeserializerSettings ?ext ?settings
      = Success \<lparr>l_serializeContext = spec_context named_types,
                  l_reporting = issueReportingCallback None\<rparr>"
    by (simp add: PrepareDeserializerSettings_def spec_collaborators_def)
  have big: "MaxFileSize < GetLength ByteContainerStream (?bytes, 0)"
    using length_spec_write_named by (simp add: ByteContainerStream_def)
  have load: "fst (LoadObjectFromStreamByType ?ext [(''name'', StringField [])] 1
                     ByteContainerStream (?bytes, 0) ?settings)
      = Failure ''Data is too large.''"
    by (simp add: LoadObjectFromStreamByType_def prepare LoadJson_too_large [OF big])
  show ?thesis
    using registered object load unfolding save by simp
qed

end
